theory Spec2Isabelle
  imports Complex_Main "HOL-Library.Sublist"
begin

text \<open>
  A model of the news aggregation service of \<^verbatim>\<open>backend/app/main.py\<close>: the text
  scorers, the per-article pass of \<^verbatim>\<open>fetch_news\<close> and the response it assembles. The
  HTTP routing and the scraping script \<^verbatim>\<open>backend/main.py\<close> are not modelled.
\<close>

section \<open>Python values\<close>

text \<open>
  A Python \<^verbatim>\<open>str\<close> is a sequence of Unicode code points, and \<^verbatim>\<open>len\<close> counts code
  points; a string is therefore modelled as a list of code points (natural numbers).
  \<open>str\<close> turns an Isabelle literal into such a string.
\<close>

type_synonym pystr = "nat list"

definition str :: "string \<Rightarrow> pystr" where
  "str s = map of_char s"

text \<open>The exceptions that the modelled code can see, as values.\<close>

datatype exn = AttributeError | TypeError | KeyError | ValidationError | LibraryError

text \<open>
  The result of \<^verbatim>\<open>response.json()\<close>: \<^verbatim>\<open>None\<close>, booleans, numbers, strings, lists and
  dictionaries (an association list; the first binding of a key is the dictionary's).
  A Python float is modelled by the real number it denotes.
\<close>

datatype pyval =
    PNone
  | PBool bool
  | PInt int
  | PFloat real
  | PStr pystr
  | PList "pyval list"
  | PDict "(pystr \<times> pyval) list"

text \<open>Truthiness, as \<^verbatim>\<open>not v\<close> reads it.\<close>

fun truthy :: "pyval \<Rightarrow> bool" where
  "truthy PNone = False"
| "truthy (PBool b) = b"
| "truthy (PInt n) = (n \<noteq> 0)"
| "truthy (PFloat x) = (x \<noteq> 0)"
| "truthy (PStr s) = (s \<noteq> [])"
| "truthy (PList xs) = (xs \<noteq> [])"
| "truthy (PDict kvs) = (kvs \<noteq> [])"

text \<open>\<^verbatim>\<open>v.get(key)\<close>: only a dictionary has the method; a missing key gives \<^verbatim>\<open>None\<close>.\<close>

fun py_get :: "pyval \<Rightarrow> pystr \<Rightarrow> exn + pyval" where
  "py_get (PDict kvs) k = (case map_of kvs k of None \<Rightarrow> Inr PNone | Some v \<Rightarrow> Inr v)"
| "py_get _ k = Inl AttributeError"

text \<open>\<^verbatim>\<open>v.get(key, default)\<close>.\<close>

fun py_get_default :: "pyval \<Rightarrow> pystr \<Rightarrow> pyval \<Rightarrow> exn + pyval" where
  "py_get_default (PDict kvs) k d = (case map_of kvs k of None \<Rightarrow> Inr d | Some v \<Rightarrow> Inr v)"
| "py_get_default _ k d = Inl AttributeError"

section \<open>String operations of the Python runtime\<close>

text \<open>The code points for which \<^verbatim>\<open>str.isspace\<close> holds.\<close>

definition isspace :: "nat \<Rightarrow> bool" where
  "isspace c = ((9 \<le> c \<and> c \<le> 13) \<or> (28 \<le> c \<and> c \<le> 32) \<or> c = 133 \<or> c = 160 \<or> c = 5760
     \<or> (8192 \<le> c \<and> c \<le> 8202) \<or> c = 8232 \<or> c = 8233 \<or> c = 8239 \<or> c = 8287 \<or> c = 12288)"

definition py_strip :: "pystr \<Rightarrow> pystr" where
  "py_strip s = rev (dropWhile isspace (rev (dropWhile isspace s)))"

text \<open>\<^verbatim>\<open>s.split()\<close>: the maximal runs of non-whitespace, in order.\<close>

fun py_split_acc :: "pystr \<Rightarrow> pystr \<Rightarrow> pystr list" where
  "py_split_acc cur [] = (if cur = [] then [] else [cur])"
| "py_split_acc cur (c # cs) =
     (if isspace c then (if cur = [] then py_split_acc [] cs else cur # py_split_acc [] cs)
      else py_split_acc (cur @ [c]) cs)"

definition py_split :: "pystr \<Rightarrow> pystr list" where
  "py_split s = py_split_acc [] s"

text \<open>\<^verbatim>\<open>s.split(sep)\<close> for a one-character separator: never empty.\<close>

fun py_split_on_acc :: "nat \<Rightarrow> pystr \<Rightarrow> pystr \<Rightarrow> pystr list" where
  "py_split_on_acc sep cur [] = [cur]"
| "py_split_on_acc sep cur (c # cs) =
     (if c = sep then cur # py_split_on_acc sep [] cs else py_split_on_acc sep (cur @ [c]) cs)"

definition py_split_on :: "nat \<Rightarrow> pystr \<Rightarrow> pystr list" where
  "py_split_on sep s = py_split_on_acc sep [] s"

text \<open>
  \<^verbatim>\<open>s.count(sub)\<close>: the occurrences of \<open>sub\<close> found scanning from the left, the scan
  resuming behind each occurrence found (so occurrences do not overlap); the empty string
  occurs once at every position, the end included.
\<close>

function py_count :: "pystr \<Rightarrow> pystr \<Rightarrow> nat" where
  "py_count [] sub = (if sub = [] then 1 else 0)"
| "py_count (c # cs) sub =
     (if sub = [] then Suc (py_count cs sub)
      else if prefix sub (c # cs) then Suc (py_count (drop (length sub) (c # cs)) sub)
      else py_count cs sub)"
  by pat_completeness auto
termination
  by (relation "measure (\<lambda>(s, sub). length s)") auto

text \<open>
  The number of positions of \<open>s\<close> at which \<open>sub\<close> occurs (overlapping occurrences
  counted each), and the strings that cannot overlap themselves: no proper non-empty
  suffix is a prefix.
\<close>

definition occurrences :: "pystr \<Rightarrow> pystr \<Rightarrow> nat" where
  "occurrences s sub = length (filter (prefix sub) (suffixes s))"

definition border_free :: "pystr \<Rightarrow> bool" where
  "border_free sub = (sub \<noteq> [] \<and> list_all (\<lambda>k. \<not> prefix (drop k sub) sub) [1..<length sub])"

text \<open>\<^verbatim>\<open>round(x, nd)\<close>: to the nearest multiple of \<open>10^-nd\<close>, a tie going to the even one.\<close>

definition round_half_even :: "real \<Rightarrow> int" where
  "round_half_even x =
     (let f = \<lfloor>x\<rfloor>; d = x - of_int f
      in if d < 1 / 2 then f else if 1 / 2 < d then f + 1 else if even f then f else f + 1)"

definition py_round :: "real \<Rightarrow> nat \<Rightarrow> real" where
  "py_round x nd = of_int (round_half_even (x * 10 ^ nd)) / 10 ^ nd"

text \<open>
  Python floats are IEEE 754 doubles. A finite double is modelled by the real number it
  denotes, and every arithmetic operation on floats (\<^verbatim>\<open>+\<close>, \<^verbatim>\<open>-\<close>, \<^verbatim>\<open>*\<close>, \<^verbatim>\<open>/\<close>, the
  conversion of an integer, the reading of a literal such as \<^verbatim>\<open>206.835\<close>) gives the
  double nearest to the exact result, a tie going to the even significand: \<open>fl\<close> of the
  exact result. \<open>binade x\<close> is the exponent \<open>e\<close> with \<open>2^e \<le> |x| < 2^(e+1)\<close>, found by
  halving or doubling; \<open>ulp x\<close> is the spacing of the doubles around \<open>x\<close>, 52 binary
  digits below the exponent, and never below that of the subnormal numbers. Infinities
  and NaN are not modelled: the operations below work on counts of words and on a
  subjectivity, and do not overflow. \<open>py_round\<close> above takes the double by its exact
  value, as \<^verbatim>\<open>round\<close> does, and gives the decimal number that the result prints as.
\<close>

fun binade_from :: "nat \<Rightarrow> real \<Rightarrow> int" where
  "binade_from 0 x = 0"
| "binade_from (Suc n) x =
     (if 2 \<le> x then binade_from n (x / 2) + 1
      else if x < 1 then binade_from n (x * 2) - 1
      else 0)"

definition binade :: "real \<Rightarrow> int" where
  "binade x = binade_from 2200 \<bar>x\<bar>"

definition ulp :: "real \<Rightarrow> real" where
  "ulp x = (let e = max (binade x) (- 1022) - 52
            in if 0 \<le> e then 2 ^ nat e else 1 / 2 ^ nat (- e))"

definition fl :: "real \<Rightarrow> real" where
  "fl x = (if x = 0 then 0 else of_int (round_half_even (x / ulp x)) * ulp x)"

section \<open>The libraries the module calls\<close>

text \<open>
  The pretrained NLP models (NLTK's sentence tokenizer, TextBlob), the Unicode tables
  behind \<^verbatim>\<open>lower\<close> and \<^verbatim>\<open>isalnum\<close> outside ASCII, pydantic's integer validation and
  the clock are not code of this repository: they are parameters. A library call either
  raises or returns.
\<close>

record env =
  sent_tokenize :: "pystr \<Rightarrow> exn + pystr list"
  tb_sentiment :: "pystr \<Rightarrow> exn + real \<times> real"
  tb_noun_phrases :: "pystr \<Rightarrow> exn + pystr list"
  tb_words :: "pystr \<Rightarrow> exn + pystr list"
  unicode_lower :: "pystr \<Rightarrow> pystr"
  unicode_isalnum :: "nat \<Rightarrow> bool"
  validate_int :: "pyval \<Rightarrow> exn + int"
  now_isoformat :: pystr

definition ascii_lower :: "nat \<Rightarrow> nat" where
  "ascii_lower c = (if 65 \<le> c \<and> c \<le> 90 then c + 32 else c)"

definition py_lower :: "env \<Rightarrow> pystr \<Rightarrow> pystr" where
  "py_lower E s = (if list_all (\<lambda>c. c < 128) s then map ascii_lower s else unicode_lower E s)"

definition ascii_isalnum :: "nat \<Rightarrow> bool" where
  "ascii_isalnum c = ((48 \<le> c \<and> c \<le> 57) \<or> (65 \<le> c \<and> c \<le> 90) \<or> (97 \<le> c \<and> c \<le> 122))"

definition py_isalnum :: "env \<Rightarrow> pystr \<Rightarrow> bool" where
  "py_isalnum E s =
     (s \<noteq> [] \<and> list_all (\<lambda>c. if c < 128 then ascii_isalnum c else unicode_isalnum E c) s)"

text \<open>\<^verbatim>\<open>try: body except Exception as e: handler\<close>.\<close>

definition try_except :: "exn + 'a \<Rightarrow> (exn \<Rightarrow> exn + 'a) \<Rightarrow> exn + 'a" where
  "try_except body handler = (case body of Inl e \<Rightarrow> handler e | Inr v \<Rightarrow> Inr v)"

definition bind_exn :: "exn + 'a \<Rightarrow> ('a \<Rightarrow> exn + 'b) \<Rightarrow> exn + 'b" where
  "bind_exn m f = (case m of Inl e \<Rightarrow> Inl e | Inr v \<Rightarrow> f v)"

section \<open>The scorers\<close>

record sentiment =
  polarity :: real
  subjectivity :: real

definition analyze_sentiment :: "env \<Rightarrow> pystr \<Rightarrow> exn + sentiment" where
  "analyze_sentiment E text =
     try_except
       (bind_exn (tb_sentiment E text) (\<lambda>(p, s).
          Inr \<lparr>polarity = py_round p 2, subjectivity = py_round s 2\<rparr>))
       (\<lambda>e. Inr \<lparr>polarity = 0, subjectivity = 1 / 2\<rparr>)"

definition analyze_content_type :: "env \<Rightarrow> pystr \<Rightarrow> exn + pystr" where
  "analyze_content_type E text =
     try_except
       (bind_exn (tb_sentiment E text) (\<lambda>(p, s).
          if fl 0.6 < s then Inr (str ''opinion/editorial'') else Inr (str ''factual'')))
       (\<lambda>e. Inr (str ''unknown''))"

record readability =
  score :: real
  reading_level :: pystr
  avg_sentence_length :: real

text \<open>The dictionary that \<^verbatim>\<open>calculate_readability_score\<close> returns in four places.\<close>

definition readability_default :: readability where
  "readability_default =
     \<lparr>score = 60, reading_level = str ''standard'', avg_sentence_length = 20\<rparr>"

text \<open>
  \<^verbatim>\<open>len(TextBlob(word).words[0].split('-'))\<close> under a bare \<^verbatim>\<open>except\<close>: a failing
  library call and an empty word list (the \<^verbatim>\<open>IndexError\<close> of \<^verbatim>\<open>[0]\<close>) both give 1.
\<close>

definition count_syllables :: "env \<Rightarrow> pystr \<Rightarrow> nat" where
  "count_syllables E word =
     (case tb_words E word of
        Inl e \<Rightarrow> 1
      | Inr [] \<Rightarrow> 1
      | Inr (w # ws) \<Rightarrow> length (py_split_on 45 w))"

text \<open>
  Lines 165 to 167, each operation rounded to a double: the two quotients of integers,
  the two products and the two differences, taken from the left.
\<close>

definition flesch :: "nat \<Rightarrow> nat \<Rightarrow> nat \<Rightarrow> real" where
  "flesch n_sentences n_words n_syllables =
     fl (fl (fl 206.835 - fl (fl 1.015 * fl (real n_words / real n_sentences)))
         - fl (fl 84.6 * fl (real n_syllables / real n_words)))"

definition level_of :: "real \<Rightarrow> pystr" where
  "level_of flesch_score =
     (if 80 < flesch_score then str ''easy''
      else if 60 < flesch_score then str ''standard''
      else str ''advanced'')"

text \<open>The argument is \<open>None\<close> when the text is absent (\<^verbatim>\<open>not text\<close> holds of \<^verbatim>\<open>None\<close>).\<close>

definition calculate_readability_score :: "env \<Rightarrow> pystr option \<Rightarrow> exn + readability" where
  "calculate_readability_score E text_opt =
     try_except
       (case text_opt of
          None \<Rightarrow> Inr readability_default
        | Some text \<Rightarrow>
            if text = [] \<or> length (py_strip text) < 10 then Inr readability_default
            else bind_exn (sent_tokenize E text) (\<lambda>sentences.
              if sentences = [] then Inr readability_default
              else
                let words = filter (\<lambda>word. py_strip word \<noteq> []) (py_split text) in
                if words = [] then Inr readability_default
                else
                  let syllable_count = sum_list (map (count_syllables E) words);
                      words_per_sentence = fl (real (length words) / real (length sentences));
                      flesch_score =
                        max 0 (min 100 (flesch (length sentences) (length words) syllable_count))
                  in Inr \<lparr>score = py_round flesch_score 1,
                          reading_level = level_of flesch_score,
                          avg_sentence_length = py_round words_per_sentence 1\<rparr>))
       (\<lambda>e. Inr readability_default)"

record bias =
  bias_level :: pystr
  bias_score :: real
  bias_factors :: "(pystr \<times> nat) list"

definition bias_indicators :: "(pystr \<times> pystr list) list" where
  "bias_indicators =
     [(str ''emotional'',
         [str ''must'', str ''never'', str ''always'', str ''clearly'', str ''obviously'']),
      (str ''loaded_words'',
         [str ''radical'', str ''extremist'', str ''fanatic'', str ''fundamental'']),
      (str ''generalizations'',
         [str ''all'', str ''every'', str ''none'', str ''never'', str ''always''])]"

definition bias_scores :: "pystr list \<Rightarrow> (pystr \<times> nat) list" where
  "bias_scores words =
     map (\<lambda>(category, indicators).
            (category, length (filter (\<lambda>word. word \<in> set indicators) words)))
         bias_indicators"

text \<open>
  Line 210: the integer sum is converted to a double and added to the product of the
  subjectivity and 5, each operation rounded to a double.
\<close>

definition total_bias :: "pystr list \<Rightarrow> real \<Rightarrow> real" where
  "total_bias words subj =
     fl (fl (real (sum_list (map snd (bias_scores words)))) + fl (subj * 5))"

definition detect_bias :: "env \<Rightarrow> pystr \<Rightarrow> exn + bias" where
  "detect_bias E text =
     try_except
       (let words = py_split (py_lower E text) in
        bind_exn (tb_sentiment E text) (\<lambda>(p, s).
          Inr \<lparr>bias_level =
                 (if 10 < total_bias words s then str ''high''
                  else if 5 < total_bias words s then str ''medium''
                  else str ''low''),
               bias_score = py_round (total_bias words s) 1,
               bias_factors = bias_scores words\<rparr>))
       (\<lambda>e. Inr \<lparr>bias_level = str ''unknown'', bias_score = 0, bias_factors = []\<rparr>)"

text \<open>
  The loop of \<^verbatim>\<open>extract_key_quotes\<close>. The source tests \<^verbatim>\<open>'"' in sentence\<close> three times,
  each time for the same character, U+0022.
\<close>

fun collect_quotes :: "int \<Rightarrow> pystr list \<Rightarrow> pystr list \<Rightarrow> pystr list" where
  "collect_quotes max_quotes [] quotes = quotes"
| "collect_quotes max_quotes (sentence # rest) quotes =
     (if (34 \<in> set sentence \<or> 34 \<in> set sentence \<or> 34 \<in> set sentence)
         \<and> int (length quotes) < max_quotes
      then collect_quotes max_quotes rest (quotes @ [py_strip sentence])
      else collect_quotes max_quotes rest quotes)"

definition extract_key_quotes :: "env \<Rightarrow> pystr \<Rightarrow> int \<Rightarrow> exn + pystr list" where
  "extract_key_quotes E text max_quotes =
     try_except
       (bind_exn (sent_tokenize E text) (\<lambda>sentences.
          Inr (collect_quotes max_quotes sentences [])))
       (\<lambda>e. Inr [])"

text \<open>
  \<^verbatim>\<open>Counter(words).most_common(n)\<close>: the distinct words in the order of their first
  occurrence, each with its number of occurrences, sorted by falling count (a stable
  sort, so equal counts keep the order of first occurrence), and the first \<open>n\<close> of them.
\<close>

definition counter :: "'a list \<Rightarrow> ('a \<times> nat) list" where
  "counter xs = map (\<lambda>x. (x, count_list xs x)) (rev (remdups (rev xs)))"

definition most_common :: "nat \<Rightarrow> 'a list \<Rightarrow> ('a \<times> nat) list" where
  "most_common n xs = take n (sort_key (\<lambda>(w, k). - int k) (counter xs))"

definition stop_words :: "pystr list" where
  "stop_words = map str
     [''the'', ''be'', ''to'', ''of'', ''and'', ''a'', ''in'', ''that'', ''have'', ''i'',
      ''it'', ''for'', ''not'', ''on'', ''with'', ''he'', ''as'', ''you'', ''do'', ''at'',
      ''this'', ''but'', ''his'', ''by'', ''from'', ''they'', ''we'', ''say'', ''her'',
      ''she'', ''or'', ''an'', ''will'', ''my'', ''one'', ''all'', ''would'', ''there'',
      ''their'', ''what'', ''so'', ''up'', ''out'', ''if'', ''about'', ''who'', ''get'',
      ''which'', ''go'', ''me'', ''when'', ''make'', ''can'', ''like'', ''time'', ''no'',
      ''just'', ''him'', ''know'', ''take'', ''people'', ''into'', ''year'', ''your'',
      ''good'', ''some'', ''could'', ''them'', ''see'', ''other'', ''than'', ''then'',
      ''now'', ''look'', ''only'', ''come'', ''its'', ''over'', ''think'', ''also'',
      ''back'', ''after'', ''use'', ''two'', ''how'', ''our'', ''work'', ''first'',
      ''well'', ''way'', ''even'', ''new'', ''want'', ''because'', ''any'', ''these'',
      ''give'', ''day'', ''most'', ''us'']"

text \<open>
  \<^verbatim>\<open>extract_keywords\<close>: the noun phrases when the library gives some; otherwise (it
  raised, or gave none) the word-frequency fallback, which is outside the \<^verbatim>\<open>try\<close> and
  consists of string operations that do not raise.
\<close>

definition keywords_fallback :: "env \<Rightarrow> pystr \<Rightarrow> nat \<Rightarrow> pystr list" where
  "keywords_fallback E text n =
     map fst (most_common n
       (map (py_lower E)
          (filter (\<lambda>word. py_lower E word \<notin> set stop_words \<and> 3 < length word
                           \<and> py_isalnum E word)
                  (py_split text))))"

definition extract_keywords :: "env \<Rightarrow> pystr \<Rightarrow> nat \<Rightarrow> pystr list" where
  "extract_keywords E text n =
     (case tb_noun_phrases E text of
        Inl e \<Rightarrow> keywords_fallback E text n
      | Inr words \<Rightarrow>
          if words \<noteq> [] then map fst (most_common n words) else keywords_fallback E text n)"

text \<open>\<^verbatim>\<open>xs[:k]\<close>, \<^verbatim>\<open>xs.index(x)\<close> for an \<open>x\<close> that occurs in \<open>xs\<close>, and \<^verbatim>\<open>sep.join(xs)\<close>.\<close>

definition py_take :: "int \<Rightarrow> 'a list \<Rightarrow> 'a list" where
  "py_take k xs = (if 0 \<le> k then take (nat k) xs else take (length xs - nat (- k)) xs)"

definition py_index :: "'a list \<Rightarrow> 'a \<Rightarrow> nat" where
  "py_index xs x = length (takeWhile (\<lambda>y. y \<noteq> x) xs)"

fun py_join :: "pystr \<Rightarrow> pystr list \<Rightarrow> pystr" where
  "py_join sep [] = []"
| "py_join sep [x] = x"
| "py_join sep (x # y # ys) = x @ sep @ py_join sep (y # ys)"

text \<open>
  The score of the sentence at position \<open>i\<close>: the double \<^verbatim>\<open>1.0 / (i + 1)\<close> (adding it
  to the integer 0 changes nothing), to which \<^verbatim>\<open>0.3\<close> is added for a sentence of 10 to 25
  words.
\<close>

definition sentence_score :: "nat \<Rightarrow> pystr \<Rightarrow> real" where
  "sentence_score i sentence =
     (if 10 \<le> length (py_split sentence) \<and> length (py_split sentence) \<le> 25
      then fl (fl (1 / real (i + 1)) + fl 0.3)
      else fl (1 / real (i + 1)))"

definition scored_sentences :: "pystr list \<Rightarrow> (real \<times> pystr) list" where
  "scored_sentences sentences =
     map (\<lambda>(i, sentence). (sentence_score i sentence, sentence)) (enumerate 0 sentences)"

text \<open>
  \<^verbatim>\<open>sorted(sorted(scored, key=score, reverse=True)[:max_sentences], key=sentences.index)\<close>:
  both sorts are stable, and a reversed sort keeps equal keys in their original order.
\<close>

definition select_sentences :: "int \<Rightarrow> pystr list \<Rightarrow> (real \<times> pystr) list" where
  "select_sentences max_sentences sentences =
     sort_key (\<lambda>x. py_index sentences (snd x))
       (py_take max_sentences (sort_key (\<lambda>x. - fst x) (scored_sentences sentences)))"

definition generate_ai_summary :: "env \<Rightarrow> pystr \<Rightarrow> int \<Rightarrow> exn + pystr" where
  "generate_ai_summary E text max_sentences =
     try_except
       (bind_exn (sent_tokenize E text) (\<lambda>sentences.
          if int (length sentences) \<le> max_sentences then Inr text
          else Inr (py_join [32] (map snd (select_sentences max_sentences sentences)))))
       (\<lambda>e. Inr text)"

section \<open>Fetching and aggregation\<close>

record topic_count =
  topic :: pystr
  count :: int

record news_item =
  title :: pystr
  url :: pystr
  source :: pystr
  timestamp :: pystr
  summary :: pystr
  item_category :: pystr
  urlToImage :: "pystr option"
  sentiment :: sentiment
  ai_summary :: pystr
  item_keywords :: "pystr list"
  content_type :: pystr
  readability :: readability
  bias_analysis :: bias
  key_quotes :: "pystr list"

record news_response =
  articles :: "news_item list"
  total :: int
  category :: pystr
  trending_topics :: "topic_count list"

datatype http_exception = HTTPException nat exn

text \<open>\<^verbatim>\<open>v.strip()\<close>: strings have the method, the other values of a JSON document do not.\<close>

fun strip_value :: "pyval \<Rightarrow> exn + pystr" where
  "strip_value (PStr s) = Inr (py_strip s)"
| "strip_value _ = Inl AttributeError"

text \<open>\<^verbatim>\<open>d[key]\<close>.\<close>

fun py_item :: "pyval \<Rightarrow> pystr \<Rightarrow> exn + pyval" where
  "py_item (PDict kvs) k = (case map_of kvs k of None \<Rightarrow> Inl KeyError | Some v \<Rightarrow> Inr v)"
| "py_item _ k = Inl TypeError"

text \<open>
  \<^verbatim>\<open>for article in v\<close> (and \<^verbatim>\<open>len(v)\<close> in the log line before it, which raises for the
  same values): a list gives its elements, a dictionary its keys, a string its
  characters; the other values are not iterable.
\<close>

fun py_iter :: "pyval \<Rightarrow> exn + pyval list" where
  "py_iter (PList xs) = Inr xs"
| "py_iter (PDict kvs) = Inr (map (\<lambda>kv. PStr (fst kv)) kvs)"
| "py_iter (PStr s) = Inr (map (\<lambda>c. PStr [c]) s)"
| "py_iter _ = Inl TypeError"

text \<open>
  pydantic's validation of a \<^verbatim>\<open>str\<close> and an \<^verbatim>\<open>Optional[str]\<close> field of \<^verbatim>\<open>NewsItem\<close>: of
  the values a JSON document holds, only a string is a valid \<^verbatim>\<open>str\<close>.
\<close>

fun validate_str :: "pyval \<Rightarrow> exn + pystr" where
  "validate_str (PStr s) = Inr s"
| "validate_str _ = Inl ValidationError"

fun validate_optional_str :: "pyval \<Rightarrow> exn + pystr option" where
  "validate_optional_str PNone = Inr None"
| "validate_optional_str (PStr s) = Inr (Some s)"
| "validate_optional_str _ = Inl ValidationError"

text \<open>
  The head of the loop body, up to the second \<^verbatim>\<open>continue\<close>: \<open>Inl\<close> when a step raises,
  \<open>Inr None\<close> when the article is skipped by a \<^verbatim>\<open>continue\<close>, and otherwise the title,
  the description and the combined text. \<^verbatim>\<open>or\<close> reads the url only when the title is
  truthy.
\<close>

definition article_text :: "pyval \<Rightarrow> exn + (pystr \<times> pystr \<times> pystr) option" where
  "article_text article =
     bind_exn (py_get article (str ''title'')) (\<lambda>t.
       if \<not> truthy t then Inr None
       else bind_exn (py_get article (str ''url'')) (\<lambda>u.
         if \<not> truthy u then Inr None
         else
           bind_exn (bind_exn (py_get_default article (str ''title'') (PStr [])) strip_value)
             (\<lambda>title'.
           bind_exn (bind_exn (py_get_default article (str ''description'') (PStr [])) strip_value)
             (\<lambda>description.
           let full_text = py_strip (title' @ [32] @ description) in
           if length full_text < 10 then Inr None
           else Inr (Some (title', description, full_text))))))"

text \<open>\<^verbatim>\<open>description or title\<close>.\<close>

definition description_or :: "pystr \<Rightarrow> pystr \<Rightarrow> pystr" where
  "description_or description title' = (if description \<noteq> [] then description else title')"

text \<open>The rest of the loop body: the scorers and the construction of the \<^verbatim>\<open>NewsItem\<close>.\<close>

definition build_item ::
  "env \<Rightarrow> pystr \<Rightarrow> pyval \<Rightarrow> pystr \<Rightarrow> pystr \<Rightarrow> pystr \<Rightarrow> exn + news_item" where
  "build_item E cat article title' description full_text =
     bind_exn (analyze_sentiment E full_text) (\<lambda>sentiment'.
     bind_exn (generate_ai_summary E (description_or description title') 3) (\<lambda>ai_summary'.
     let keywords' = extract_keywords E full_text 5 in
     bind_exn (analyze_content_type E full_text) (\<lambda>content_type'.
     bind_exn (calculate_readability_score E (Some full_text)) (\<lambda>readability'.
     bind_exn (detect_bias E full_text) (\<lambda>bias_analysis'.
     bind_exn (extract_key_quotes E (description_or description title') 2) (\<lambda>key_quotes'.
     bind_exn (py_item article (str ''url'')) (\<lambda>url_value.
     bind_exn (py_get_default article (str ''source'') (PDict [])) (\<lambda>source_value.
     bind_exn (py_get_default source_value (str ''name'') (PStr (str ''Unknown Source'')))
       (\<lambda>name_value.
     bind_exn (py_get_default article (str ''publishedAt'') (PStr (now_isoformat E)))
       (\<lambda>timestamp_value.
     bind_exn (py_get article (str ''urlToImage'')) (\<lambda>image_value.
     bind_exn (validate_str url_value) (\<lambda>url'.
     bind_exn (validate_str name_value) (\<lambda>source'.
     bind_exn (validate_str timestamp_value) (\<lambda>timestamp'.
     bind_exn (validate_optional_str image_value) (\<lambda>urlToImage'.
       Inr \<lparr>title = title', url = url', source = source', timestamp = timestamp',
            summary = description, item_category = cat, urlToImage = urlToImage',
            sentiment = sentiment', ai_summary = ai_summary', item_keywords = keywords',
            content_type = content_type', readability = readability',
            bias_analysis = bias_analysis', key_quotes = key_quotes'\<rparr>)))))))))))))))"

text \<open>
  One turn of the loop on the state \<open>(all_text, news_items)\<close>. The text is appended
  before the scorers run and the item is built; the handler of the loop body
  (\<^verbatim>\<open>except Exception: continue\<close>) leaves the state as the failed turn left it.
\<close>

definition process_article ::
  "env \<Rightarrow> pystr \<Rightarrow> pystr \<times> news_item list \<Rightarrow> pyval \<Rightarrow> pystr \<times> news_item list" where
  "process_article E cat state article =
     (case article_text article of
        Inl e \<Rightarrow> state
      | Inr None \<Rightarrow> state
      | Inr (Some (title', description, full_text)) \<Rightarrow>
          (case build_item E cat article title' description full_text of
             Inl e \<Rightarrow> (fst state @ [32] @ full_text, snd state)
           | Inr item \<Rightarrow> (fst state @ [32] @ full_text, snd state @ [item])))"

definition process_articles ::
  "env \<Rightarrow> pystr \<Rightarrow> pyval list \<Rightarrow> pystr \<times> news_item list" where
  "process_articles E cat raw = foldl (process_article E cat) ([], []) raw"

text \<open>The two lines that turn the pooled text into the trending topics.\<close>

definition trending_with_count :: "env \<Rightarrow> pystr \<Rightarrow> topic_count list" where
  "trending_with_count E all_text =
     map (\<lambda>t. \<lparr>topic = t, count = int (py_count (py_lower E all_text) (py_lower E t))\<rparr>)
         (extract_keywords E all_text 10)"

text \<open>
  \<^verbatim>\<open>fetch_news\<close> from the point where the upstream request has been awaited: \<open>upstream\<close>
  is \<open>Inl\<close> when the request, \<^verbatim>\<open>raise_for_status\<close> or \<^verbatim>\<open>response.json()\<close> raised, and
  the decoded document otherwise. Every exception of the body becomes the
  \<^verbatim>\<open>HTTPException\<close> with status 500; a value returned is the body of a 200 response.
\<close>

definition fetch_body :: "env \<Rightarrow> pystr \<Rightarrow> pyval \<Rightarrow> exn + news_response" where
  "fetch_body E cat data =
     bind_exn (py_get_default data (str ''articles'') (PList [])) (\<lambda>raw_value.
     bind_exn (py_iter raw_value) (\<lambda>raw.
     let (all_text, news_items) = process_articles E cat raw in
     if news_items = [] then
       Inr \<lparr>articles = [], total = 0, category = cat, trending_topics = []\<rparr>
     else
       bind_exn (py_get_default data (str ''totalResults'') (PInt (int (length news_items))))
         (\<lambda>total_value.
       bind_exn (validate_int E total_value) (\<lambda>total'.
         Inr \<lparr>articles = news_items, total = total', category = cat,
              trending_topics = trending_with_count E all_text\<rparr>))))"

definition fetch_news ::
  "env \<Rightarrow> pystr \<Rightarrow> exn + pyval \<Rightarrow> http_exception + news_response" where
  "fetch_news E cat upstream =
     (case bind_exn upstream (fetch_body E cat) of
        Inl e \<Rightarrow> Inl (HTTPException 500 e)
      | Inr response \<Rightarrow> Inr response)"

section \<open>A concrete environment\<close>

text \<open>
  Stand-ins for the libraries, used to run the definitions on concrete inputs: a
  sentence tokenizer that ends a sentence at a full stop, exclamation mark or question
  mark followed by whitespace or the end of the text; a sentiment model that finds every
  text neutral; no noun-phrase model (the call raises, as it does when the corpora are
  missing); a word tokenizer that returns the word itself; no letters outside ASCII; an
  integer validation that accepts integers only.
\<close>

fun simple_sentences :: "pystr \<Rightarrow> pystr \<Rightarrow> pystr list" where
  "simple_sentences cur [] = (if cur = [] then [] else [cur])"
| "simple_sentences cur (c # cs) =
     (if cur = [] \<and> isspace c then simple_sentences [] cs
      else if (c = 46 \<or> c = 33 \<or> c = 63) \<and> (case cs of [] \<Rightarrow> True | d # ds \<Rightarrow> isspace d)
      then (cur @ [c]) # simple_sentences [] cs
      else simple_sentences (cur @ [c]) cs)"

fun int_only :: "pyval \<Rightarrow> exn + int" where
  "int_only (PInt n) = Inr n"
| "int_only _ = Inl ValidationError"

definition demo_env :: env where
  "demo_env =
     \<lparr>sent_tokenize = (\<lambda>text. Inr (simple_sentences [] text)),
      tb_sentiment = (\<lambda>text. Inr (0, 0)),
      tb_noun_phrases = (\<lambda>text. Inl LibraryError),
      tb_words = (\<lambda>word. Inr [word]),
      unicode_lower = (\<lambda>s. s),
      unicode_isalnum = (\<lambda>c. False),
      validate_int = int_only,
      now_isoformat = str ''2024-01-01T00:00:00''\<rparr>"

text \<open>The same environment with a sentiment model that finds every text mildly opinionated.\<close>

definition opinionated_env :: env where
  "opinionated_env = demo_env\<lparr>tb_sentiment := (\<lambda>text. Inr (0.337, 0.433))\<rparr>"


text \<open>A sentence of twenty-five one-letter words.\<close>

definition t25 :: pystr where
  "t25 = str ''a a a a a a a a a a a a a a a a a a a a a a a a a.''"

text \<open>Upstream documents and articles used as concrete inputs.\<close>

definition article_hello :: pyval where
  "article_hello =
     PDict [(str ''title'', PStr (str ''Hello'')),
            (str ''description'', PStr (str ''news'')),
            (str ''url'', PStr (str ''http://a''))]"

definition article_short :: pyval where
  "article_short =
     PDict [(str ''title'', PStr (str ''Hello'')),
            (str ''description'', PStr (str ''new'')),
            (str ''url'', PStr (str ''http://b''))]"

definition article_no_url :: pyval where
  "article_no_url =
     PDict [(str ''title'', PStr (str ''Markets rally strongly today'')),
            (str ''description'', PStr (str ''Stocks rose.''))]"

definition article_apple :: pyval where
  "article_apple =
     PDict [(str ''title'', PStr (str ''Apple apple APPLE pie'')),
            (str ''url'', PStr (str ''http://c''))]"

definition article_markets :: pyval where
  "article_markets =
     PDict [(str ''title'', PStr (str ''Markets rally strongly today'')),
            (str ''url'', PStr (str ''http://d''))]"

definition article_zebra :: pyval where
  "article_zebra =
     PDict [(str ''title'', PStr (str ''Zebra zebra zebra sighting'')),
            (str ''url'', PStr (str ''http://e'')),
            (str ''source'', PNone)]"

definition document :: "int \<Rightarrow> pyval list \<Rightarrow> pyval" where
  "document n raw =
     PDict [(str ''status'', PStr (str ''ok'')),
            (str ''totalResults'', PInt n),
            (str ''articles'', PList raw)]"

text \<open>The titles of the articles of a response (none for a failed request).\<close>

definition titles_of :: "http_exception + news_response \<Rightarrow> pystr list" where
  "titles_of result = (case result of Inl e \<Rightarrow> [] | Inr response \<Rightarrow> map title (articles response))"

definition topics_of :: "http_exception + news_response \<Rightarrow> (pystr \<times> int) list" where
  "topics_of result =
     (case result of
        Inl e \<Rightarrow> []
      | Inr response \<Rightarrow> map (\<lambda>tc. (topic tc, count tc)) (trending_topics response))"

section \<open>Rounding\<close>

lemma binade_from_step:
  "0 < n \<Longrightarrow> binade_from n x =
     (if 2 \<le> x then binade_from (n - 1) (x / 2) + 1
      else if x < 1 then binade_from (n - 1) (x * 2) - 1
      else 0)"
  by (cases n) simp_all

lemmas fl_eval = fl_def ulp_def binade_def binade_from_step round_half_even_def Let_def

text \<open>The doubles that the literals and quotients used below denote.\<close>

lemma fl_exact: "fl 0 = 0" "fl 1 = 1" "fl 4 = 4" "fl 25 = 25" "fl (1 / 2) = 1 / 2"
  "fl (1 / 4) = 1 / 4" "fl (0.4375 * 5) = 2.1875" "fl 2.1875 = 2.1875"
  by (simp_all add: fl_eval)

lemma fl_tenth: "fl 0.1 = 3602879701896397 / 36028797018963968"
  by (simp add: fl_eval)

lemma fl_third: "fl (1 / 3) = 6004799503160661 / 18014398509481984"
  by (simp add: fl_eval)

lemma round_half_even_le: "x \<le> of_int n \<Longrightarrow> round_half_even x \<le> n"
proof -
  assume h: "x \<le> of_int n"
  have fl: "\<lfloor>x\<rfloor> \<le> n" using h by (simp add: floor_le_iff)
  show ?thesis
  proof (cases "\<lfloor>x\<rfloor> = n")
    case True
    then have "x = of_int n" using h by (metis of_int_floor_le order_antisym)
    then show ?thesis by (simp add: round_half_even_def Let_def)
  next
    case False
    with fl have "\<lfloor>x\<rfloor> + 1 \<le> n" by simp
    then show ?thesis using fl by (simp add: round_half_even_def Let_def)
  qed
qed

lemma round_half_even_ge: "of_int n \<le> x \<Longrightarrow> n \<le> round_half_even x"
proof -
  assume h: "of_int n \<le> x"
  then have "n \<le> \<lfloor>x\<rfloor>" by (simp add: le_floor_iff)
  then show ?thesis by (simp add: round_half_even_def Let_def)
qed

lemma py_round_le: "x \<le> of_int n \<Longrightarrow> py_round x nd \<le> of_int n"
proof -
  assume h: "x \<le> of_int n"
  have "x * 10 ^ nd \<le> of_int (n * 10 ^ nd)" using h by simp
  then have "round_half_even (x * 10 ^ nd) \<le> n * 10 ^ nd" by (rule round_half_even_le)
  then have "(of_int (round_half_even (x * 10 ^ nd)) :: real) \<le> of_int (n * 10 ^ nd)"
    by (simp only: of_int_le_iff)
  then show ?thesis by (simp add: py_round_def divide_le_eq)
qed

lemma py_round_ge: "of_int n \<le> x \<Longrightarrow> of_int n \<le> py_round x nd"
proof -
  assume h: "of_int n \<le> x"
  have "of_int (n * 10 ^ nd) \<le> x * 10 ^ nd" using h by simp
  then have "n * 10 ^ nd \<le> round_half_even (x * 10 ^ nd)" by (rule round_half_even_ge)
  then have "(of_int (n * 10 ^ nd) :: real) \<le> of_int (round_half_even (x * 10 ^ nd))"
    by (simp only: of_int_le_iff)
  then show ?thesis by (simp add: py_round_def le_divide_eq)
qed

section \<open>Exceptions\<close>

lemma try_except_Inr: "try_except (Inr v) h = Inr v"
  by (simp add: try_except_def)

lemma try_except_Inl: "try_except (Inl e) h = h e"
  by (simp add: try_except_def)

lemma bind_exn_Inr: "bind_exn (Inr v) f = f v"
  by (simp add: bind_exn_def)

lemma bind_exn_Inl: "bind_exn (Inl e) f = Inl e"
  by (simp add: bind_exn_def)

section \<open>Sentiment\<close>

text \<open>
  Claim C6. \<open>analyze_sentiment\<close> always returns (no exception leaves it). When the
  sentiment model raises, the result is exactly polarity 0.0 and subjectivity 0.5.
  Otherwise the result is the model's polarity and subjectivity, each rounded to two
  decimals, and rounding keeps a polarity of the interval [-1, 1] and a subjectivity of
  the interval [0, 1] (the ranges of the model's output) inside these intervals.
\<close>

theorem analyze_sentiment_total_bounded:
  "\<exists>r. analyze_sentiment E text = Inr r \<and>
     (case tb_sentiment E text of
        Inl e \<Rightarrow> r = \<lparr>polarity = 0, subjectivity = 1 / 2\<rparr>
      | Inr (p, s) \<Rightarrow>
          r = \<lparr>polarity = py_round p 2, subjectivity = py_round s 2\<rparr> \<and>
          (- 1 \<le> p \<and> p \<le> 1 \<and> 0 \<le> s \<and> s \<le> 1 \<longrightarrow>
             - 1 \<le> polarity r \<and> polarity r \<le> 1 \<and>
             0 \<le> subjectivity r \<and> subjectivity r \<le> 1))"
proof (cases "tb_sentiment E text")
  case (Inl e)
  then show ?thesis
    by (simp add: analyze_sentiment_def bind_exn_Inl try_except_Inl)
next
  case (Inr ps)
  obtain p s where ps: "ps = (p, s)" by (cases ps)
  have eq: "analyze_sentiment E text =
      Inr \<lparr>polarity = py_round p 2, subjectivity = py_round s 2\<rparr>"
    using Inr ps by (simp add: analyze_sentiment_def bind_exn_Inr try_except_Inr)
  have lo: "- 1 \<le> p \<Longrightarrow> - 1 \<le> py_round p 2"
    using py_round_ge [of "- 1" p 2] by simp
  have hi: "p \<le> 1 \<Longrightarrow> py_round p 2 \<le> 1"
    using py_round_le [of p 1 2] by simp
  have slo: "0 \<le> s \<Longrightarrow> 0 \<le> py_round s 2"
    using py_round_ge [of 0 s 2] by simp
  have shi: "s \<le> 1 \<Longrightarrow> py_round s 2 \<le> 1"
    using py_round_le [of s 1 2] by simp
  show ?thesis
    using Inr ps eq lo hi slo shi by simp
qed

theorem analyze_sentiment_total_bounded_witness:
  "analyze_sentiment opinionated_env (str ''good news'')
     = Inr \<lparr>polarity = 0.34, subjectivity = 0.43\<rparr>
   \<and> - 1 \<le> (0.337 :: real) \<and> (0.337 :: real) \<le> 1 \<and> 0 \<le> (0.433 :: real) \<and> (0.433 :: real) \<le> 1"
  using analyze_sentiment_total_bounded [of opinionated_env "str ''good news''"]
  by (simp add: opinionated_env_def demo_env_def py_round_def round_half_even_def Let_def)

section \<open>Bias\<close>

lemma bias_scores_eq:
  "bias_scores words =
     [(str ''emotional'',
         length (filter (\<lambda>word. word \<in> set [str ''must'', str ''never'', str ''always'',
                                             str ''clearly'', str ''obviously'']) words)),
      (str ''loaded_words'',
         length (filter (\<lambda>word. word \<in> set [str ''radical'', str ''extremist'',
                                             str ''fanatic'', str ''fundamental'']) words)),
      (str ''generalizations'',
         length (filter (\<lambda>word. word \<in> set [str ''all'', str ''every'', str ''none'',
                                             str ''never'', str ''always'']) words))]"
  by (simp add: bias_scores_def bias_indicators_def)

lemma detect_bias_Inr:
  "tb_sentiment E text = Inr (p, s) \<Longrightarrow>
   detect_bias E text =
     Inr \<lparr>bias_level =
            (if 10 < total_bias (py_split (py_lower E text)) s then str ''high''
             else if 5 < total_bias (py_split (py_lower E text)) s then str ''medium''
             else str ''low''),
          bias_score = py_round (total_bias (py_split (py_lower E text)) s) 1,
          bias_factors = bias_scores (py_split (py_lower E text))\<rparr>"
  by (simp add: detect_bias_def Let_def bind_exn_Inr try_except_Inr)


lemma never_always_in_both:
  "w = str ''never'' \<or> w = str ''always'' \<Longrightarrow>
   bias_scores (xs @ w # ys) =
     map (\<lambda>(c, n). (c, if c = str ''loaded_words'' then n else Suc n)) (bias_scores (xs @ ys))"
  by (auto simp add: bias_scores_eq str_def)

text \<open>
  Claim C10. The lists of the categories \<open>emotional\<close> and \<open>generalizations\<close> both hold
  \<open>never\<close> and \<open>always\<close>: a token of the lowercased, whitespace-split text that equals
  one of the two adds one to the score of each of these categories (and nothing to
  \<open>loaded_words\<close>), hence two to the sum of the category scores from which
  \<open>total_bias\<close> is computed.
\<close>

theorem detect_bias_never_always_twice:
  assumes "tb_sentiment E text = Inr (p, s)"
    and "py_split (py_lower E text) = xs @ w # ys"
    and "w = str ''never'' \<or> w = str ''always''"
  shows "\<exists>r. detect_bias E text = Inr r \<and>
           bias_factors r =
             map (\<lambda>(c, n). (c, if c = str ''emotional'' \<or> c = str ''generalizations''
                                then n + 1 else n))
                 (bias_scores (xs @ ys)) \<and>
           sum_list (map snd (bias_factors r)) = sum_list (map snd (bias_scores (xs @ ys))) + 2 \<and>
           total_bias (xs @ w # ys) s =
             fl (fl (real (sum_list (map snd (bias_scores (xs @ ys))) + 2)) + fl (s * 5))"
proof -
  have f: "bias_scores (xs @ w # ys) =
     map (\<lambda>(c, n). (c, if c = str ''emotional'' \<or> c = str ''generalizations''
                        then n + 1 else n)) (bias_scores (xs @ ys))"
    using assms(3) by (auto simp add: bias_scores_eq str_def)
  have g: "sum_list (map snd (bias_scores (xs @ w # ys))) =
     sum_list (map snd (bias_scores (xs @ ys))) + 2"
    using assms(3) by (auto simp add: bias_scores_eq str_def)
  have h: "total_bias (xs @ w # ys) s =
      fl (fl (real (sum_list (map snd (bias_scores (xs @ ys))) + 2)) + fl (s * 5))"
    unfolding total_bias_def g by (rule refl)
  show ?thesis
    using detect_bias_Inr [OF assms(1)] assms(2) f g h by simp
qed

lemma split_never: "py_split (py_lower demo_env (str ''Never say NEVER'')) = [str ''never'', str ''say'', str ''never'']"
   by (simp add: py_lower_def ascii_lower_def str_def py_split_def isspace_def)

theorem detect_bias_never_always_twice_witness:
  "detect_bias demo_env (str ''Never say NEVER'') =
     Inr \<lparr>bias_level = str ''low'', bias_score = 4,
          bias_factors = [(str ''emotional'', 2), (str ''loaded_words'', 0),
                          (str ''generalizations'', 2)]\<rparr>"
proof -
  have a: "tb_sentiment demo_env (str ''Never say NEVER'') = Inr (0, 0)"
    by (simp add: demo_env_def)
  have b: "py_split (py_lower demo_env (str ''Never say NEVER'')) = [] @ str ''never'' # [str ''say'', str ''never'']"
    by (simp add: py_lower_def ascii_lower_def str_def py_split_def isspace_def)
  have c: "str ''never'' = str ''never'' \<or> str ''never'' = str ''always''" by simp
  show ?thesis
    using detect_bias_never_always_twice [OF a b c]
    unfolding detect_bias_Inr [OF a] split_never
    by (simp add: total_bias_def bias_scores_eq fl_exact py_round_def round_half_even_def
        str_def)
qed





text \<open>
  Double precision is visible here too. With the subjectivity 0.8500000000000001 and no
  indicator word, \<open>total_bias\<close> is the double 4.25 and the score reported is 4.2; with
  the double nearest to 0.8 and one indicator word, \<open>total_bias\<close> is exactly 5 and the
  level is \<open>low\<close>.
\<close>

lemma total_bias_hot:
  "py_round (total_bias [str ''hot''] (1914029841632461 / 2251799813685248)) 1 = 4.2"
proof -
  have "bias_scores [str ''hot'']
      = [(str ''emotional'', 0), (str ''loaded_words'', 0), (str ''generalizations'', 0)]"
    by (simp add: bias_scores_eq str_def)
  then show ?thesis
    by (simp add: total_bias_def fl_eval py_round_def)
qed

lemma total_bias_exactly_five:
  "total_bias [str ''must''] (3602879701896397 / 4503599627370496) = 5"
proof -
  have "bias_scores [str ''must'']
      = [(str ''emotional'', 1), (str ''loaded_words'', 0), (str ''generalizations'', 0)]"
    by (simp add: bias_scores_eq str_def)
  then show ?thesis
    by (simp add: total_bias_def fl_eval)
qed

section \<open>Readability\<close>

lemma readability_default_bounds: "0 \<le> score readability_default \<and> score readability_default \<le> 100"
  by (simp add: readability_default_def)

lemma calculate_readability_score_None:
  "calculate_readability_score E None = Inr readability_default"
  by (simp add: calculate_readability_score_def try_except_Inr)

lemma calculate_readability_score_short:
  "text = [] \<or> length (py_strip text) < 10 \<Longrightarrow>
   calculate_readability_score E (Some text) = Inr readability_default"
  by (auto simp add: calculate_readability_score_def try_except_Inr)

lemma calculate_readability_score_raise:
  "\<not> (text = [] \<or> length (py_strip text) < 10) \<Longrightarrow> sent_tokenize E text = Inl e \<Longrightarrow>
   calculate_readability_score E (Some text) = Inr readability_default"
  by (auto simp add: calculate_readability_score_def try_except_Inl bind_exn_Inl)

lemma calculate_readability_score_empty:
  "\<not> (text = [] \<or> length (py_strip text) < 10) \<Longrightarrow> sent_tokenize E text = Inr sentences \<Longrightarrow>
   sentences = [] \<or> filter (\<lambda>word. py_strip word \<noteq> []) (py_split text) = [] \<Longrightarrow>
   calculate_readability_score E (Some text) = Inr readability_default"
  by (auto simp add: calculate_readability_score_def try_except_Inr bind_exn_Inr Let_def)

lemma calculate_readability_score_main:
  "\<not> (text = [] \<or> length (py_strip text) < 10) \<Longrightarrow> sent_tokenize E text = Inr sentences \<Longrightarrow>
   \<not> (sentences = [] \<or> filter (\<lambda>word. py_strip word \<noteq> []) (py_split text) = []) \<Longrightarrow>
   calculate_readability_score E (Some text) =
     Inr \<lparr>score = py_round (max 0 (min 100
              (flesch (length sentences)
                 (length (filter (\<lambda>word. py_strip word \<noteq> []) (py_split text)))
                 (sum_list (map (count_syllables E)
                    (filter (\<lambda>word. py_strip word \<noteq> []) (py_split text))))))) 1,
          reading_level = level_of (max 0 (min 100
              (flesch (length sentences)
                 (length (filter (\<lambda>word. py_strip word \<noteq> []) (py_split text)))
                 (sum_list (map (count_syllables E)
                    (filter (\<lambda>word. py_strip word \<noteq> []) (py_split text))))))),
          avg_sentence_length = py_round
              (fl (real (length (filter (\<lambda>word. py_strip word \<noteq> []) (py_split text)))
                     / real (length sentences))) 1\<rparr>"
  by (auto simp add: calculate_readability_score_def try_except_Inr bind_exn_Inr Let_def)

lemma clamped_round_bounds:
  "0 \<le> py_round (max 0 (min 100 x)) 1 \<and> py_round (max 0 (min 100 x)) 1 \<le> 100"
proof -
  have "of_int 0 \<le> max 0 (min 100 x)" by simp
  then have a: "of_int 0 \<le> py_round (max 0 (min 100 x)) 1" by (rule py_round_ge)
  have "max 0 (min 100 x) \<le> of_int 100" by simp
  then have b: "py_round (max 0 (min 100 x)) 1 \<le> of_int 100" by (rule py_round_le)
  show ?thesis using a b by simp
qed

text \<open>
  Claim C4, as amended. \<open>calculate_readability_score\<close> always returns, with a score in
  [0, 100]. For an absent text, a text of trimmed length below 10, no sentence or no
  word, and also when the sentence tokenizer raises, the result is exactly score 60.0,
  level \<open>standard\<close> and average sentence length 20.0. Otherwise, with the Flesch value
  206.835 - 1.015 (words / sentences) - 84.6 (syllables / words), computed in double
  precision (every quotient, product and difference rounded to a double) and clamped to
  [0, 100], the score returned is the clamped value rounded to one decimal, and the level is
  \<open>easy\<close> when the clamped value (before rounding) is above 80, \<open>standard\<close> when it is
  above 60, and \<open>advanced\<close> otherwise.
\<close>

theorem calculate_readability_score_spec:
  "\<exists>r. calculate_readability_score E text_opt = Inr r \<and> 0 \<le> score r \<and> score r \<le> 100 \<and>
     (case text_opt of
        None \<Rightarrow> r = readability_default
      | Some text \<Rightarrow>
          if text = [] \<or> length (py_strip text) < 10 then r = readability_default
          else
            (case sent_tokenize E text of
               Inl e \<Rightarrow> r = readability_default
             | Inr sentences \<Rightarrow>
                 if sentences = [] \<or> filter (\<lambda>word. py_strip word \<noteq> []) (py_split text) = []
                 then r = readability_default
                 else
                   let words = filter (\<lambda>word. py_strip word \<noteq> []) (py_split text);
                       words_per_sentence = fl (real (length words) / real (length sentences));
                       syllables_per_word =
                         fl (real (sum_list (map (count_syllables E) words))
                               / real (length words));
                       clamped = max 0 (min 100
                         (fl (fl (fl 206.835 - fl (fl 1.015 * words_per_sentence))
                              - fl (fl 84.6 * syllables_per_word))))
                   in score r = py_round clamped 1 \<and>
                      reading_level r =
                        (if 80 < clamped then str ''easy''
                         else if 60 < clamped then str ''standard''
                         else str ''advanced'') \<and>
                      avg_sentence_length r = py_round words_per_sentence 1))"
proof (cases text_opt)
  case None
  then show ?thesis
    by (simp add: calculate_readability_score_None readability_default_bounds)
next
  case (Some tx)
  show ?thesis
  proof (cases "tx = [] \<or> length (py_strip tx) < 10")
    case True
    then show ?thesis
      using Some calculate_readability_score_short [OF True, of E]
      by (simp add: readability_default_bounds)
  next
    case short: False
    show ?thesis
    proof (cases "sent_tokenize E tx")
      case (Inl e)
      then show ?thesis
        using Some short calculate_readability_score_raise [OF short Inl]
        by (simp add: readability_default_bounds)
    next
      case (Inr sentences)
      show ?thesis
      proof (cases "sentences = [] \<or> filter (\<lambda>word. py_strip word \<noteq> []) (py_split tx) = []")
        case True
        then show ?thesis
          using Some short Inr calculate_readability_score_empty [OF short Inr True]
          by (simp add: readability_default_bounds)
      next
        case False
        show ?thesis
          using Some short Inr False calculate_readability_score_main [OF short Inr False]
            clamped_round_bounds
          by (simp add: flesch_def level_of_def Let_def)
      qed
    qed
  qed
qed

lemma t25_split: "py_split t25 =
   [[97], [97], [97], [97], [97], [97], [97], [97], [97], [97], [97], [97], [97], [97], [97], [97],
    [97], [97], [97], [97], [97], [97], [97], [97], [97, 46]]"
  by (simp add: t25_def str_def py_split_def isspace_def)

lemma t25_sentences: "sent_tokenize demo_env t25 = Inr [t25]"
  by (simp add: t25_def demo_env_def str_def isspace_def)

lemma t25_long: "\<not> (t25 = [] \<or> length (py_strip t25) < 10)"
  by (simp add: t25_def str_def py_strip_def isspace_def)

lemma demo_syllables: "count_syllables demo_env [97] = 1" "count_syllables demo_env [97, 46] = 1"
  by (simp_all add: count_syllables_def demo_env_def py_split_on_def)

text \<open>
  The score returned is not the clamped Flesch value itself: for one sentence of 25
  one-syllable words the clamped value is the double 96.86000000000001 and the score
  returned is 96.9.
\<close>

theorem readability_score_is_rounded:
  "calculate_readability_score demo_env
     (Some (str ''a a a a a a a a a a a a a a a a a a a a a a a a a.'')) =
     Inr \<lparr>score = 96.9, reading_level = str ''easy'', avg_sentence_length = 25\<rparr>
   \<and> max 0 (min 100 (fl (fl (fl 206.835 - fl (fl 1.015 * fl (25 / 1))) - fl (fl 84.6 * fl (25 / 25)))))
       = 851989570131067 / 8796093022208
   \<and> (96.86 :: real) < 851989570131067 / 8796093022208
   \<and> (851989570131067 / 8796093022208 :: real) < 96.87"
proof -
  have w: "\<not> ([t25] = [] \<or> filter (\<lambda>word. py_strip word \<noteq> []) (py_split t25) = [])"
    unfolding t25_split by (simp add: py_strip_def isspace_def)
  have f: "filter (\<lambda>word. py_strip word \<noteq> []) (py_split t25) = py_split t25"
    unfolding t25_split by (simp add: py_strip_def isspace_def)
  have v: "fl (fl (fl 206.835 - fl (fl 1.015 * fl (25 / 1))) - fl (fl 84.6 * fl (25 / 25)))
      = 851989570131067 / 8796093022208"
    by (simp add: fl_eval)
  have fv: "flesch (Suc 0) 25 25 = 851989570131067 / 8796093022208"
    unfolding flesch_def using v by simp
  have r: "py_round (851989570131067 / 8796093022208) (Suc 0) = 96.9"
    by (simp add: py_round_def round_half_even_def Let_def)
  have len: "length (py_split t25) = 25"
    unfolding t25_split by simp
  have syl: "sum_list (map (count_syllables demo_env) (py_split t25)) = 25"
    unfolding t25_split by (simp add: demo_syllables)
  have avg: "py_round 25 (Suc 0) = 25"
    by (simp add: py_round_def round_half_even_def Let_def)
  have "calculate_readability_score demo_env (Some t25) =
     Inr \<lparr>score = 96.9, reading_level = str ''easy'', avg_sentence_length = 25\<rparr>"
    unfolding calculate_readability_score_main [OF t25_long t25_sentences w] f len syl
    by (simp add: fv r avg level_of_def fl_exact)
  then show ?thesis using v by (simp add: t25_def)
qed

text \<open>
  Double precision is visible in the results. For one sentence of 39 one-syllable words
  the Flesch value is the double 82.650000000000005, not 82.65, and the score is 82.7;
  for 10 sentences, 120 words and 191 syllables it is just above 60, where the exact
  value is 60, and the level is \<open>standard\<close>; 23 words in 20 sentences average the double
  below 1.15, reported as 1.1.
\<close>

lemma flesch_39_words: "py_round (max 0 (min 100 (flesch 1 39 39))) 1 = 82.7"
  by (simp add: flesch_def fl_eval py_round_def)

lemma flesch_above_60:
  "60 < flesch 10 120 191 \<and> level_of (max 0 (min 100 (flesch 10 120 191))) = str ''standard''"
  by (simp add: flesch_def level_of_def fl_eval)

lemma average_23_in_20: "py_round (fl (23 / 20)) 1 = 1.1"
  by (simp add: fl_eval py_round_def)

section \<open>The per-article pass\<close>

lemma try_except_total: "\<exists>r. try_except body (\<lambda>e. Inr (d e)) = Inr r"
  by (cases body) (simp_all add: try_except_def)

lemma analyze_sentiment_returns: "\<exists>r. analyze_sentiment E t = Inr r"
  unfolding analyze_sentiment_def by (rule try_except_total)

lemma analyze_content_type_returns: "\<exists>r. analyze_content_type E t = Inr r"
  unfolding analyze_content_type_def by (rule try_except_total)

lemma calculate_readability_score_returns: "\<exists>r. calculate_readability_score E t = Inr r"
  unfolding calculate_readability_score_def by (rule try_except_total)

lemma detect_bias_returns: "\<exists>r. detect_bias E t = Inr r"
  unfolding detect_bias_def by (rule try_except_total)

lemma extract_key_quotes_returns: "\<exists>r. extract_key_quotes E t m = Inr r"
  unfolding extract_key_quotes_def by (rule try_except_total)

lemma generate_ai_summary_returns: "\<exists>r. generate_ai_summary E t m = Inr r"
  unfolding generate_ai_summary_def by (rule try_except_total)

lemma build_item_returns:
  assumes "py_item a (str ''url'') = Inr (PStr u)"
    and "py_get_default a (str ''source'') (PDict []) = Inr sv"
    and "py_get_default sv (str ''name'') (PStr (str ''Unknown Source'')) = Inr (PStr nm)"
    and "py_get_default a (str ''publishedAt'') (PStr (now_isoformat E)) = Inr (PStr ts)"
    and "py_get a (str ''urlToImage'') = Inr PNone \<or> py_get a (str ''urlToImage'') = Inr (PStr img)"
  shows "\<exists>item. build_item E cat a t d full = Inr item \<and> title item = t \<and> url item = u
           \<and> source item = nm \<and> timestamp item = ts \<and> summary item = d \<and> item_category item = cat"
proof -
  obtain r1 where r1: "analyze_sentiment E full = Inr r1"
    using analyze_sentiment_returns by blast
  obtain r2 where r2: "generate_ai_summary E (description_or d t) 3 = Inr r2"
    using generate_ai_summary_returns by blast
  obtain r3 where r3: "analyze_content_type E full = Inr r3"
    using analyze_content_type_returns by blast
  obtain r4 where r4: "calculate_readability_score E (Some full) = Inr r4"
    using calculate_readability_score_returns by blast
  obtain r5 where r5: "detect_bias E full = Inr r5"
    using detect_bias_returns by blast
  obtain r6 where r6: "extract_key_quotes E (description_or d t) 2 = Inr r6"
    using extract_key_quotes_returns by blast
  from assms(5) show ?thesis
  proof
    assume "py_get a (str ''urlToImage'') = Inr PNone"
    then show ?thesis
      unfolding build_item_def r1 r2 r3 r4 r5 r6
      by (simp add: bind_exn_Inr Let_def assms(1) assms(2) assms(3) assms(4))
  next
    assume "py_get a (str ''urlToImage'') = Inr (PStr img)"
    then show ?thesis
      unfolding build_item_def r1 r2 r3 r4 r5 r6
      by (simp add: bind_exn_Inr Let_def assms(1) assms(2) assms(3) assms(4))
  qed
qed

lemma article_text_falsy_title:
  "py_get a (str ''title'') = Inr t \<Longrightarrow> \<not> truthy t \<Longrightarrow> article_text a = Inr None"
  by (simp add: article_text_def bind_exn_Inr)

lemma article_text_falsy_url:
  "py_get a (str ''url'') = Inr u \<Longrightarrow> \<not> truthy u \<Longrightarrow>
   article_text a = Inr None"
proof -
  assume u: "py_get a (str ''url'') = Inr u" and f: "\<not> truthy u"
  obtain kvs where a: "a = PDict kvs" using u by (cases a) simp_all
  obtain t where t: "py_get a (str ''title'') = Inr t"
    unfolding a by (cases "map_of kvs (str ''title'')") simp_all
  show ?thesis
    using u f t by (simp add: article_text_def bind_exn_Inr)
qed

lemma py_get_default_of_get:
  "py_get a k = Inr (PStr s) \<Longrightarrow> py_get_default a k d = Inr (PStr s)"
  by (cases a) (auto split: option.splits)

lemma py_item_of_get:
  "py_get a k = Inr (PStr s) \<Longrightarrow> py_item a k = Inr (PStr s)"
  by (cases a) (auto split: option.splits)

lemma article_text_strings:
  assumes "py_get a (str ''title'') = Inr (PStr t)" and "t \<noteq> []"
    and "py_get a (str ''url'') = Inr u" and "truthy u"
    and "py_get_default a (str ''description'') (PStr []) = Inr (PStr d)"
  shows "article_text a =
     (if length (py_strip (py_strip t @ [32] @ py_strip d)) < 10 then Inr None
      else Inr (Some (py_strip t, py_strip d, py_strip (py_strip t @ [32] @ py_strip d))))"
  using assms py_get_default_of_get [OF assms(1), of "PStr []"]
  by (simp add: article_text_def bind_exn_Inr Let_def)

lemma process_article_append:
  "process_article E cat st a =
     (fst st @ fst (process_article E cat ([], []) a),
      snd st @ snd (process_article E cat ([], []) a))"
  by (simp add: process_article_def split: sum.splits option.splits prod.splits)

lemma foldl_process_article:
  "foldl (process_article E cat) st raw =
     (fst st @ concat (map (\<lambda>a. fst (process_article E cat ([], []) a)) raw),
      snd st @ concat (map (\<lambda>a. snd (process_article E cat ([], []) a)) raw))"
proof (induction raw arbitrary: st)
  case Nil
  then show ?case by simp
next
  case (Cons a raw)
  show ?case
    by (simp add: Cons.IH) (subst process_article_append, simp)+
qed

lemma process_articles_concat:
  "process_articles E cat raw =
     (concat (map (\<lambda>a. fst (process_article E cat ([], []) a)) raw),
      concat (map (\<lambda>a. snd (process_article E cat ([], []) a)) raw))"
  by (simp add: process_articles_def foldl_process_article)

lemma fetch_news_Inr:
  assumes "fetch_news E cat upstream = Inr resp"
  shows "\<exists>data rv raw. upstream = Inr data
           \<and> py_get_default data (str ''articles'') (PList []) = Inr rv
           \<and> py_iter rv = Inr raw
           \<and> articles resp = snd (process_articles E cat raw)
           \<and> category resp = cat
           \<and> trending_topics resp =
               (if snd (process_articles E cat raw) = [] then []
                else trending_with_count E (fst (process_articles E cat raw)))"
proof -
  obtain data where d: "upstream = Inr data"
    using assms by (cases upstream) (simp_all add: fetch_news_def bind_exn_def)
  have b: "fetch_body E cat data = Inr resp"
    using assms d by (simp add: fetch_news_def bind_exn_def split: sum.splits)
  obtain rv where rv: "py_get_default data (str ''articles'') (PList []) = Inr rv"
    using b by (cases "py_get_default data (str ''articles'') (PList [])")
      (simp_all add: fetch_body_def bind_exn_def)
  obtain raw where raw: "py_iter rv = Inr raw"
    using b rv by (cases "py_iter rv") (simp_all add: fetch_body_def bind_exn_def)
  obtain P items where pi: "process_articles E cat raw = (P, items)"
    by (cases "process_articles E cat raw")
  have "articles resp = items \<and> category resp = cat \<and>
        trending_topics resp = (if items = [] then [] else trending_with_count E P)"
    using b rv raw pi
    by (auto simp add: fetch_body_def bind_exn_def split: sum.splits if_splits)
  then show ?thesis using d rv raw pi by simp
qed


section \<open>The response\<close>

lemma fetch_body_empty:
  assumes "py_get_default data (str ''articles'') (PList []) = Inr rv"
    and "py_iter rv = Inr raw"
    and "snd (process_articles E cat raw) = []"
  shows "fetch_body E cat data =
           Inr \<lparr>articles = [], total = 0, category = cat, trending_topics = []\<rparr>"
proof -
  obtain P items where pi: "process_articles E cat raw = (P, items)"
    by (cases "process_articles E cat raw")
  then have "items = []" using assms(3) by simp
  then show ?thesis
    using assms(1) assms(2) pi by (simp add: fetch_body_def bind_exn_Inr)
qed

lemma fetch_body_nonempty:
  assumes "py_get_default data (str ''articles'') (PList []) = Inr rv"
    and "py_iter rv = Inr raw"
    and "process_articles E cat raw = (P, items)"
    and "items \<noteq> []"
    and "py_get_default data (str ''totalResults'') (PInt (int (length items))) = Inr tv"
    and "validate_int E tv = Inr n"
  shows "fetch_body E cat data =
           Inr \<lparr>articles = items, total = n, category = cat,
                trending_topics = trending_with_count E P\<rparr>"
  using assms by (simp add: fetch_body_def bind_exn_Inr)

text \<open>
  Claim C9. When the upstream request succeeded and no article survives the per-article
  pass, \<open>fetch_news\<close> returns (a 200 response) the response with no articles, total 0,
  the requested category and no trending topics, whatever total the upstream document
  reports and whatever text the pass has pooled: the trending-topic analysis is not
  run.
\<close>

theorem fetch_news_none_survive:
  assumes "upstream = Inr data"
    and "py_get_default data (str ''articles'') (PList []) = Inr rv"
    and "py_iter rv = Inr raw"
    and "snd (process_articles E cat raw) = []"
  shows "fetch_news E cat upstream =
           Inr \<lparr>articles = [], total = 0, category = cat, trending_topics = []\<rparr>"
  using assms(1) fetch_body_empty [OF assms(2) assms(3) assms(4)]
  by (simp add: fetch_news_def bind_exn_Inr)

lemma document_articles:
  "py_get_default (document n raw) (str ''articles'') (PList []) = Inr (PList raw)"
  by (simp add: document_def str_def)

lemma document_total:
  "py_get_default (document n raw) (str ''totalResults'') d = Inr (PInt n)"
  by (simp add: document_def str_def)

lemma no_url_skipped: "process_article E cat st article_no_url = st"
proof -
  have "py_get article_no_url (str ''url'') = Inr PNone"
    by (simp add: article_no_url_def str_def)
  then have "article_text article_no_url = Inr None"
    by (rule article_text_falsy_url) simp
  then show ?thesis by (simp add: process_article_def)
qed

theorem fetch_news_none_survive_witness:
  "fetch_news demo_env (str ''all'') (Inr (document 0 [])) =
     Inr \<lparr>articles = [], total = 0, category = str ''all'', trending_topics = []\<rparr>
   \<and> fetch_news demo_env (str ''general'') (Inr (document 38 [article_no_url])) =
     Inr \<lparr>articles = [], total = 0, category = str ''general'', trending_topics = []\<rparr>"
proof -
  have a: "snd (process_articles demo_env (str ''all'') []) = []"
    by (simp add: process_articles_def)
  have b: "snd (process_articles demo_env (str ''general'') [article_no_url]) = []"
    by (simp add: process_articles_def no_url_skipped)
  have c: "py_iter (PList []) = Inr []" by simp
  have d: "py_iter (PList [article_no_url]) = Inr [article_no_url]" by simp
  show ?thesis
    using fetch_news_none_survive [OF refl document_articles [of 0 "[]"] c a]
      fetch_news_none_survive [OF refl document_articles [of 38 "[article_no_url]"] d b]
    by simp
qed


section \<open>Filtering\<close>

lemma process_article_skipped:
  "(py_get a (str ''title'') = Inr tv \<and> \<not> truthy tv) \<or> (py_get a (str ''url'') = Inr uv \<and> \<not> truthy uv)
   \<Longrightarrow> process_article E cat st a = st"
proof -
  assume "(py_get a (str ''title'') = Inr tv \<and> \<not> truthy tv) \<or> (py_get a (str ''url'') = Inr uv \<and> \<not> truthy uv)"
  then have "article_text a = Inr None"
    using article_text_falsy_title article_text_falsy_url by blast
  then show ?thesis by (simp add: process_article_def)
qed

lemma process_article_too_short:
  assumes "py_get a (str ''title'') = Inr (PStr t)" and "t \<noteq> []"
    and "py_get a (str ''url'') = Inr uv" and "truthy uv"
    and "py_get_default a (str ''description'') (PStr []) = Inr (PStr d)"
    and "length (py_strip (py_strip t @ [32] @ py_strip d)) < 10"
  shows "process_article E cat st a = st"
  using article_text_strings [OF assms(1) assms(2) assms(3) assms(4) assms(5)] assms(6)
  by (simp add: process_article_def)

lemma process_article_included:
  assumes "py_get a (str ''title'') = Inr (PStr t)" and "t \<noteq> []"
    and "py_get a (str ''url'') = Inr (PStr u)" and "u \<noteq> []"
    and "py_get_default a (str ''description'') (PStr []) = Inr (PStr d)"
    and "10 \<le> length (py_strip (py_strip t @ [32] @ py_strip d))"
    and "py_get_default a (str ''source'') (PDict []) = Inr sv"
    and "py_get_default sv (str ''name'') (PStr (str ''Unknown Source'')) = Inr (PStr nm)"
    and "py_get_default a (str ''publishedAt'') (PStr (now_isoformat E)) = Inr (PStr ts)"
    and "py_get a (str ''urlToImage'') = Inr PNone \<or> py_get a (str ''urlToImage'') = Inr (PStr img)"
  shows "\<exists>item. process_article E cat st a =
             (fst st @ [32] @ py_strip (py_strip t @ [32] @ py_strip d), snd st @ [item])
           \<and> title item = py_strip t \<and> url item = u \<and> summary item = py_strip d"
proof -
  have tu: "truthy (PStr u)" using assms(4) by simp
  have at: "article_text a =
      Inr (Some (py_strip t, py_strip d, py_strip (py_strip t @ [32] @ py_strip d)))"
    using article_text_strings [OF assms(1) assms(2) assms(3) tu assms(5)] assms(6) by simp
  obtain item where
    "build_item E cat a (py_strip t) (py_strip d)
        (py_strip (py_strip t @ [32] @ py_strip d)) = Inr item"
    "title item = py_strip t" "url item = u" "summary item = py_strip d"
    using build_item_returns [OF py_item_of_get [OF assms(3)] assms(7) assms(8) assms(9) assms(10)]
    by blast
  then show ?thesis using at by (simp add: process_article_def)
qed

lemma build_item_source_raises:
  assumes "py_item a (str ''url'') = Inr uv"
    and "py_get_default a (str ''source'') (PDict []) = Inr sv"
    and "py_get_default sv (str ''name'') (PStr (str ''Unknown Source'')) = Inl e"
  shows "build_item E cat a t d full = Inl e"
proof -
  obtain r1 where r1: "analyze_sentiment E full = Inr r1"
    using analyze_sentiment_returns by blast
  obtain r2 where r2: "generate_ai_summary E (description_or d t) 3 = Inr r2"
    using generate_ai_summary_returns by blast
  obtain r3 where r3: "analyze_content_type E full = Inr r3"
    using analyze_content_type_returns by blast
  obtain r4 where r4: "calculate_readability_score E (Some full) = Inr r4"
    using calculate_readability_score_returns by blast
  obtain r5 where r5: "detect_bias E full = Inr r5"
    using detect_bias_returns by blast
  obtain r6 where r6: "extract_key_quotes E (description_or d t) 2 = Inr r6"
    using extract_key_quotes_returns by blast
  show ?thesis
    unfolding build_item_def r1 r2 r3 r4 r5 r6
    by (simp add: bind_exn_Inr bind_exn_Inl Let_def assms)
qed

lemma process_article_source_raises:
  assumes "py_get a (str ''title'') = Inr (PStr t)" and "t \<noteq> []"
    and "py_get a (str ''url'') = Inr (PStr u)" and "u \<noteq> []"
    and "py_get_default a (str ''description'') (PStr []) = Inr (PStr d)"
    and "10 \<le> length (py_strip (py_strip t @ [32] @ py_strip d))"
    and "py_get_default a (str ''source'') (PDict []) = Inr sv"
    and "py_get_default sv (str ''name'') (PStr (str ''Unknown Source'')) = Inl e"
  shows "process_article E cat st a =
           (fst st @ [32] @ py_strip (py_strip t @ [32] @ py_strip d), snd st)"
proof -
  have tu: "truthy (PStr u)" using assms(4) by simp
  have at: "article_text a =
      Inr (Some (py_strip t, py_strip d, py_strip (py_strip t @ [32] @ py_strip d)))"
    using article_text_strings [OF assms(1) assms(2) assms(3) tu assms(5)] assms(6) by simp
  show ?thesis
    using at build_item_source_raises [OF py_item_of_get [OF assms(3)] assms(7) assms(8)]
    by (simp add: process_article_def)
qed

text \<open>
  Claim C1, as amended. The articles of a response are the items that the raw articles
  of the upstream document contribute one by one, in order. A raw article whose title
  or url is missing or empty contributes none. With a string title and a description
  that is a string or missing, the combined text is the trimmed title, one space and the
  trimmed description, trimmed again (the space between the two counts; it is trimmed
  away only when the description is empty): the article contributes none when the
  combined text has fewer than 10 characters, and it contributes exactly one item,
  carrying its trimmed title and its url, when the combined text has 10 characters or
  more and the url, the source name, the publication time and the image url are of the
  types that \<open>NewsItem\<close> accepts.
\<close>

theorem fetch_news_filter:
  "(fetch_news E cat upstream = Inr resp \<longrightarrow>
      (\<exists>data rv raw. upstream = Inr data
         \<and> py_get_default data (str ''articles'') (PList []) = Inr rv
         \<and> py_iter rv = Inr raw
         \<and> articles resp = concat (map (\<lambda>a. snd (process_article E cat ([], []) a)) raw)))
   \<and> ((py_get a (str ''title'') = Inr tv \<and> \<not> truthy tv)
        \<or> (py_get a (str ''url'') = Inr uv \<and> \<not> truthy uv) \<longrightarrow>
      snd (process_article E cat ([], []) a) = [])
   \<and> (py_get a (str ''title'') = Inr (PStr t) \<and> t \<noteq> []
        \<and> py_get a (str ''url'') = Inr uv \<and> truthy uv
        \<and> py_get_default a (str ''description'') (PStr []) = Inr (PStr d)
        \<and> length (py_strip (py_strip t @ [32] @ py_strip d)) < 10 \<longrightarrow>
      snd (process_article E cat ([], []) a) = [])
   \<and> (py_get a (str ''title'') = Inr (PStr t) \<and> t \<noteq> []
        \<and> py_get a (str ''url'') = Inr (PStr u) \<and> u \<noteq> []
        \<and> py_get_default a (str ''description'') (PStr []) = Inr (PStr d)
        \<and> 10 \<le> length (py_strip (py_strip t @ [32] @ py_strip d))
        \<and> py_get_default a (str ''source'') (PDict []) = Inr sv
        \<and> py_get_default sv (str ''name'') (PStr (str ''Unknown Source'')) = Inr (PStr nm)
        \<and> py_get_default a (str ''publishedAt'') (PStr (now_isoformat E)) = Inr (PStr ts)
        \<and> (py_get a (str ''urlToImage'') = Inr PNone
             \<or> py_get a (str ''urlToImage'') = Inr (PStr img)) \<longrightarrow>
      (\<exists>item. snd (process_article E cat ([], []) a) = [item]
         \<and> title item = py_strip t \<and> url item = u \<and> summary item = py_strip d))"
proof (intro conjI impI)
  assume "fetch_news E cat upstream = Inr resp"
  from fetch_news_Inr [OF this]
  show "\<exists>data rv raw. upstream = Inr data
         \<and> py_get_default data (str ''articles'') (PList []) = Inr rv
         \<and> py_iter rv = Inr raw
         \<and> articles resp = concat (map (\<lambda>a. snd (process_article E cat ([], []) a)) raw)"
    by (auto simp add: process_articles_concat)
next
  assume "(py_get a (str ''title'') = Inr tv \<and> \<not> truthy tv)
        \<or> (py_get a (str ''url'') = Inr uv \<and> \<not> truthy uv)"
  from process_article_skipped [OF this]
  show "snd (process_article E cat ([], []) a) = []" by simp
next
  assume "py_get a (str ''title'') = Inr (PStr t) \<and> t \<noteq> []
        \<and> py_get a (str ''url'') = Inr uv \<and> truthy uv
        \<and> py_get_default a (str ''description'') (PStr []) = Inr (PStr d)
        \<and> length (py_strip (py_strip t @ [32] @ py_strip d)) < 10"
  then show "snd (process_article E cat ([], []) a) = []"
    using process_article_too_short [of a t uv d E cat "([], [])"] by simp
next
  assume "py_get a (str ''title'') = Inr (PStr t) \<and> t \<noteq> []
        \<and> py_get a (str ''url'') = Inr (PStr u) \<and> u \<noteq> []
        \<and> py_get_default a (str ''description'') (PStr []) = Inr (PStr d)
        \<and> 10 \<le> length (py_strip (py_strip t @ [32] @ py_strip d))
        \<and> py_get_default a (str ''source'') (PDict []) = Inr sv
        \<and> py_get_default sv (str ''name'') (PStr (str ''Unknown Source'')) = Inr (PStr nm)
        \<and> py_get_default a (str ''publishedAt'') (PStr (now_isoformat E)) = Inr (PStr ts)
        \<and> (py_get a (str ''urlToImage'') = Inr PNone
             \<or> py_get a (str ''urlToImage'') = Inr (PStr img))"
  then show "\<exists>item. snd (process_article E cat ([], []) a) = [item]
         \<and> title item = py_strip t \<and> url item = u \<and> summary item = py_strip d"
    using process_article_included [of a t u d sv nm E ts img cat "([], [])"] by auto
qed


lemma fetch_news_document:
  assumes "snd (process_articles E cat raw) \<noteq> []" and "validate_int E (PInt n) = Inr n"
  shows "fetch_news E cat (Inr (document n raw)) =
           Inr \<lparr>articles = snd (process_articles E cat raw), total = n, category = cat,
                trending_topics = trending_with_count E (fst (process_articles E cat raw))\<rparr>"
proof -
  have i: "py_iter (PList raw) = Inr raw" by simp
  have p: "process_articles E cat raw =
      (fst (process_articles E cat raw), snd (process_articles E cat raw))" by simp
  show ?thesis
    using fetch_body_nonempty [OF document_articles i p assms(1) document_total assms(2)]
    by (simp add: fetch_news_def bind_exn_Inr)
qed

lemma demo_validate_int: "validate_int demo_env (PInt n) = Inr n"
  by (simp add: demo_env_def)

lemma hello_fields:
  "py_get article_hello (str ''title'') = Inr (PStr (str ''Hello'')) \<and> str ''Hello'' \<noteq> []
   \<and> py_get article_hello (str ''url'') = Inr (PStr (str ''http://a'')) \<and> str ''http://a'' \<noteq> []
   \<and> py_get_default article_hello (str ''description'') (PStr []) = Inr (PStr (str ''news''))
   \<and> 10 \<le> length (py_strip (py_strip (str ''Hello'') @ [32] @ py_strip (str ''news'')))
   \<and> py_get_default article_hello (str ''source'') (PDict []) = Inr (PDict [])
   \<and> py_get_default (PDict []) (str ''name'') (PStr (str ''Unknown Source''))
        = Inr (PStr (str ''Unknown Source''))
   \<and> py_get_default article_hello (str ''publishedAt'') (PStr (now_isoformat demo_env))
        = Inr (PStr (now_isoformat demo_env))
   \<and> (py_get article_hello (str ''urlToImage'') = Inr PNone
        \<or> py_get article_hello (str ''urlToImage'') = Inr (PStr []))"
  by (simp add: article_hello_def str_def py_strip_def isspace_def)

lemma short_fields:
  "py_get article_short (str ''title'') = Inr (PStr (str ''Hello'')) \<and> str ''Hello'' \<noteq> []
   \<and> py_get article_short (str ''url'') = Inr (PStr (str ''http://b''))
   \<and> truthy (PStr (str ''http://b''))
   \<and> py_get_default article_short (str ''description'') (PStr []) = Inr (PStr (str ''new''))
   \<and> length (py_strip (py_strip (str ''Hello'') @ [32] @ py_strip (str ''new''))) < 10"
  by (simp add: article_short_def str_def py_strip_def isspace_def)

lemma hello_text:
  "py_strip (str ''Hello'') = str ''Hello''"
  "py_strip (str ''news'') = str ''news''"
  "py_strip (str ''Hello'' @ [32] @ str ''news'') = str ''Hello news''"
  by (simp_all add: py_strip_def str_def isspace_def)

lemma hello_included:
  "\<exists>item. process_article demo_env cat st article_hello =
             (fst st @ [32] @ str ''Hello news'', snd st @ [item])
         \<and> title item = str ''Hello''"
  using process_article_included [of article_hello "str ''Hello''" "str ''http://a''"
        "str ''news''" "PDict []" "str ''Unknown Source''" demo_env
        "now_isoformat demo_env" "[]" cat st] hello_fields
  unfolding hello_text by auto

text \<open>
  An article whose title has 5 characters and whose description has 4, 9 characters
  together, is not excluded: its combined text \<open>Hello news\<close> has 10 characters.
\<close>

theorem nine_characters_included:
  "titles_of (fetch_news demo_env (str ''general'') (Inr (document 1 [article_hello])))
     = [str ''Hello'']
   \<and> article_hello = PDict [(str ''title'', PStr (str ''Hello'')),
                            (str ''description'', PStr (str ''news'')),
                            (str ''url'', PStr (str ''http://a''))]
   \<and> length (str ''Hello'') + length (str ''news'') = 9"
proof -
  obtain item where
    p: "process_article demo_env (str ''general'') ([], []) article_hello
          = ([] @ [32] @ str ''Hello news'', [] @ [item])"
    and t: "title item = str ''Hello''"
    using hello_included [of "str ''general''" "([], [])"] by auto
  have ps: "process_articles demo_env (str ''general'') [article_hello]
          = ([32] @ str ''Hello news'', [item])"
    using p by (simp add: process_articles_def)
  have ne: "snd (process_articles demo_env (str ''general'') [article_hello]) \<noteq> []"
    using ps by simp
  have "titles_of (fetch_news demo_env (str ''general'') (Inr (document 1 [article_hello])))
     = [str ''Hello'']"
    unfolding fetch_news_document [OF ne demo_validate_int] ps
    by (simp add: titles_of_def t)
  then show ?thesis by (simp add: article_hello_def str_def)
qed

lemma short_skipped: "process_article E cat st article_short = st"
  using process_article_too_short [of article_short "str ''Hello''" "PStr (str ''http://b'')"
        "str ''new''" E cat st] short_fields
  by blast

theorem fetch_news_filter_witness:
  "titles_of (fetch_news demo_env (str ''general'')
       (Inr (document 3 [article_no_url, article_short, article_hello])))
     = [str ''Hello'']"
proof -
  let ?raw = "[article_no_url, article_short, article_hello]"
  let ?cat = "str ''general''"
  let ?up = "Inr (document 3 ?raw)"
  let ?R = "\<lparr>articles = snd (process_articles demo_env ?cat ?raw), total = 3,
              category = ?cat,
              trending_topics =
                trending_with_count demo_env (fst (process_articles demo_env ?cat ?raw))\<rparr>"
  have ne: "snd (process_articles demo_env ?cat ?raw) \<noteq> []"
    using hello_included [of ?cat "([], [])"]
    by (auto simp add: process_articles_def no_url_skipped short_skipped)
  have f: "fetch_news demo_env ?cat ?up = Inr ?R"
    by (rule fetch_news_document [OF ne demo_validate_int])
  have u: "py_get article_no_url (str ''url'') = Inr PNone \<and> \<not> truthy PNone"
    by (simp add: article_no_url_def str_def)
  have s: "py_strip (str ''Hello'') = str ''Hello''"
    by (simp add: py_strip_def str_def isspace_def)
  have 1: "\<exists>data rv raw. ?up = Inr data
         \<and> py_get_default data (str ''articles'') (PList []) = Inr rv
         \<and> py_iter rv = Inr raw
         \<and> articles ?R = concat (map (\<lambda>a. snd (process_article demo_env ?cat ([], []) a)) raw)"
    using fetch_news_filter [where E = demo_env and cat = ?cat and upstream = ?up
        and resp = ?R] f
    by blast
  have 2: "snd (process_article demo_env ?cat ([], []) article_no_url) = []"
    using fetch_news_filter [where E = demo_env and cat = ?cat and a = article_no_url
        and uv = PNone] u
    by blast
  have 3: "snd (process_article demo_env ?cat ([], []) article_short) = []"
    using fetch_news_filter [where E = demo_env and cat = ?cat and a = article_short
        and t = "str ''Hello''" and d = "str ''new''" and uv = "PStr (str ''http://b'')"]
      short_fields
    by blast
  have 4: "\<exists>item. snd (process_article demo_env ?cat ([], []) article_hello) = [item]
         \<and> title item = py_strip (str ''Hello'')"
    using fetch_news_filter [where E = demo_env and cat = ?cat and a = article_hello
        and t = "str ''Hello''" and d = "str ''news''" and u = "str ''http://a''"
        and sv = "PDict []" and nm = "str ''Unknown Source''"
        and ts = "now_isoformat demo_env" and img = "[]"]
      hello_fields
    by blast
  from 1 have "articles ?R =
      concat (map (\<lambda>a. snd (process_article demo_env ?cat ([], []) a)) ?raw)"
    by (auto simp add: document_articles)
  then have "map title (articles ?R) = [str ''Hello'']"
    using 2 3 4 s by auto
  then show ?thesis
    unfolding f by (simp add: titles_of_def)
qed


section \<open>Trending topics\<close>

text \<open>
  Claim C2. Every entry of the trending topics of a response pairs a topic, one of the
  keywords extracted from the pooled text, with the number of occurrences of the
  lowercased topic in the lowercased pooled text, the pooled text being the text that
  the per-article pass has accumulated. The occurrences are counted as \<^verbatim>\<open>str.count\<close>
  counts them: as substrings, not as words, scanning from the left and resuming behind
  each occurrence found.
\<close>

theorem trending_topic_counts:
  assumes "fetch_news E cat upstream = Inr resp" and "tc \<in> set (trending_topics resp)"
  shows "\<exists>data rv raw. upstream = Inr data
           \<and> py_get_default data (str ''articles'') (PList []) = Inr rv
           \<and> py_iter rv = Inr raw
           \<and> topic tc \<in> set (extract_keywords E (fst (process_articles E cat raw)) 10)
           \<and> count tc = int (py_count (py_lower E (fst (process_articles E cat raw)))
                                       (py_lower E (topic tc)))"
proof -
  obtain data rv raw where
    d: "upstream = Inr data"
       "py_get_default data (str ''articles'') (PList []) = Inr rv"
       "py_iter rv = Inr raw"
    and tt: "trending_topics resp =
               (if snd (process_articles E cat raw) = [] then []
                else trending_with_count E (fst (process_articles E cat raw)))"
    using fetch_news_Inr [OF assms(1)] by blast
  have "tc \<in> set (trending_with_count E (fst (process_articles E cat raw)))"
    using assms(2) tt by (simp split: if_splits)
  then have "topic tc \<in> set (extract_keywords E (fst (process_articles E cat raw)) 10)
      \<and> count tc = int (py_count (py_lower E (fst (process_articles E cat raw)))
                                  (py_lower E (topic tc)))"
    by (auto simp add: trending_with_count_def)
  then show ?thesis using d by blast
qed

lemma kw_apple: "extract_keywords demo_env (str '' Apple apple APPLE pie'') 10 = [str ''apple'']"
  by (simp add: extract_keywords_def demo_env_def keywords_fallback_def most_common_def counter_def
      py_lower_def ascii_lower_def py_isalnum_def ascii_isalnum_def py_split_def isspace_def
      stop_words_def str_def)

lemma count_apple:
  "py_count (py_lower demo_env (str '' Apple apple APPLE pie'')) (py_lower demo_env (str ''apple'')) = 3"
  by (simp add: py_lower_def ascii_lower_def str_def)

lemma apple_fields:
  "py_get article_apple (str ''title'') = Inr (PStr (str ''Apple apple APPLE pie''))
   \<and> str ''Apple apple APPLE pie'' \<noteq> []
   \<and> py_get article_apple (str ''url'') = Inr (PStr (str ''http://c'')) \<and> str ''http://c'' \<noteq> []
   \<and> py_get_default article_apple (str ''description'') (PStr []) = Inr (PStr [])
   \<and> 10 \<le> length (py_strip (py_strip (str ''Apple apple APPLE pie'') @ [32] @ py_strip []))
   \<and> py_get_default article_apple (str ''source'') (PDict []) = Inr (PDict [])
   \<and> py_get_default (PDict []) (str ''name'') (PStr (str ''Unknown Source''))
        = Inr (PStr (str ''Unknown Source''))
   \<and> py_get_default article_apple (str ''publishedAt'') (PStr (now_isoformat demo_env))
        = Inr (PStr (now_isoformat demo_env))
   \<and> (py_get article_apple (str ''urlToImage'') = Inr PNone
        \<or> py_get article_apple (str ''urlToImage'') = Inr (PStr []))"
  by (simp add: article_apple_def str_def py_strip_def isspace_def)

lemma apple_text:
  "py_strip (py_strip (str ''Apple apple APPLE pie'') @ [32] @ py_strip [])
     = str ''Apple apple APPLE pie''"
  by (simp add: str_def py_strip_def isspace_def)

lemma apple_included:
  "\<exists>item. process_articles demo_env cat [article_apple] =
             (str '' Apple apple APPLE pie'', [item])"
proof -
  have "\<exists>item. process_article demo_env cat ([], []) article_apple =
             (fst ([], []) @ [32] @ str ''Apple apple APPLE pie'', snd ([], []) @ [item])"
    using process_article_included [of article_apple "str ''Apple apple APPLE pie''"
        "str ''http://c''" "[]" "PDict []" "str ''Unknown Source''" demo_env
        "now_isoformat demo_env" "[]" cat "([], [])"] apple_fields
    unfolding apple_text by auto
  then show ?thesis by (simp add: process_articles_def str_def)
qed

theorem trending_topic_counts_witness:
  "topics_of (fetch_news demo_env (str ''general'') (Inr (document 1 [article_apple])))
     = [(str ''apple'', 3)]"
proof -
  let ?cat = "str ''general''"
  let ?up = "Inr (document 1 [article_apple])"
  let ?P = "str '' Apple apple APPLE pie''"
  obtain item where ps: "process_articles demo_env ?cat [article_apple] = (?P, [item])"
    using apple_included by blast
  have ne: "snd (process_articles demo_env ?cat [article_apple]) \<noteq> []"
    using ps by simp
  let ?tc = "\<lparr>topic = str ''apple'',
              count = int (py_count (py_lower demo_env ?P) (py_lower demo_env (str ''apple'')))\<rparr>"
  let ?R = "\<lparr>articles = [item], total = 1, category = ?cat, trending_topics = [?tc]\<rparr>"
  have f: "fetch_news demo_env ?cat ?up = Inr ?R"
    unfolding fetch_news_document [OF ne demo_validate_int] ps
    by (simp add: trending_with_count_def kw_apple)
  have m: "?tc \<in> set (trending_topics ?R)" by simp
  have "\<exists>data rv raw. ?up = Inr data
           \<and> py_get_default data (str ''articles'') (PList []) = Inr rv
           \<and> py_iter rv = Inr raw
           \<and> topic ?tc \<in> set (extract_keywords demo_env (fst (process_articles demo_env ?cat raw)) 10)
           \<and> count ?tc = int (py_count (py_lower demo_env (fst (process_articles demo_env ?cat raw)))
                                       (py_lower demo_env (topic ?tc)))"
    using trending_topic_counts [OF f m] by simp
  then have "count ?tc = int (py_count (py_lower demo_env ?P) (py_lower demo_env (str ''apple'')))"
    by (auto simp add: document_articles ps)
  then have "count ?tc = 3" unfolding count_apple by simp
  then show ?thesis
    unfolding f by (simp add: topics_of_def count_apple)
qed


text \<open>
  \<^verbatim>\<open>str.count\<close> against the number of positions at which the topic occurs: never
  more, and the same for a topic that cannot overlap itself.
\<close>

lemma occurrences_Nil: "occurrences [] sub = (if sub = [] then 1 else 0)"
  by (simp add: occurrences_def)

lemma occurrences_Cons:
  "occurrences (c # cs) sub = occurrences cs sub + (if prefix sub (c # cs) then 1 else 0)"
  by (simp add: occurrences_def)

lemma occurrences_empty: "occurrences s [] = Suc (length s)"
  by (induction s) (simp_all add: occurrences_Nil occurrences_Cons)

lemma py_count_empty: "py_count s [] = Suc (length s)"
  by (induction s) simp_all

lemma occurrences_skip:
  assumes "\<And>j. j < length u \<Longrightarrow> \<not> prefix sub (drop j u @ rest)"
  shows "occurrences (u @ rest) sub = occurrences rest sub"
  using assms
proof (induction u)
  case Nil
  then show ?case by simp
next
  case (Cons a u)
  have "\<not> prefix sub ((a # u) @ rest)"
    using Cons.prems [of 0] by simp
  moreover have "occurrences (u @ rest) sub = occurrences rest sub"
  proof (rule Cons.IH)
    fix j assume "j < length u"
    then show "\<not> prefix sub (drop j u @ rest)"
      using Cons.prems [of "Suc j"] by simp
  qed
  ultimately show ?case by (simp add: occurrences_Cons)
qed

lemma prefix_overlap:
  assumes "prefix sub (u @ rest)" and "length u \<le> length sub"
  shows "prefix u sub"
proof -
  obtain zs where z: "u @ rest = sub @ zs" using assms(1) by (auto simp: prefix_def)
  have "take (length u) (u @ rest) = take (length u) (sub @ zs)" using z by simp
  then have "u = take (length u) sub" using assms(2) by simp
  then show ?thesis by (metis take_is_prefix)
qed

lemma occurrences_after_match:
  assumes "border_free sub"
  shows "occurrences (sub @ rest) sub = Suc (occurrences rest sub)"
proof -
  obtain a u where sub: "sub = a # u" using assms by (cases sub) (simp_all add: border_free_def)
  have nb: "\<And>k. 1 \<le> k \<Longrightarrow> k < length sub \<Longrightarrow> \<not> prefix (drop k sub) sub"
    using assms by (simp add: border_free_def list_all_iff)
  have "occurrences (u @ rest) sub = occurrences rest sub"
  proof (rule occurrences_skip)
    fix j assume j: "j < length u"
    show "\<not> prefix sub (drop j u @ rest)"
    proof
      assume "prefix sub (drop j u @ rest)"
      then have "prefix (drop j u) sub"
        by (rule prefix_overlap) (simp add: sub)
      then have "prefix (drop (Suc j) sub) sub" by (simp add: sub)
      moreover have "1 \<le> Suc j" and "Suc j < length sub" using j by (simp_all add: sub)
      ultimately show False using nb by blast
    qed
  qed
  then show ?thesis by (simp add: sub occurrences_Cons)
qed

lemma py_count_le_occurrences: "py_count s sub \<le> occurrences s sub"
proof (induction s sub rule: py_count.induct)
  case (1 sub)
  then show ?case by (simp add: occurrences_Nil)
next
  case (2 c cs sub)
  show ?case
  proof (cases "sub = []")
    case True
    then show ?thesis by (simp add: occurrences_empty py_count_empty)
  next
    case ne: False
    show ?thesis
    proof (cases "prefix sub (c # cs)")
      case True
      then obtain rest where r: "c # cs = sub @ rest" by (auto simp: prefix_def)
      obtain a u where sub: "sub = a # u" using ne by (cases sub) simp_all
      have cs: "cs = u @ rest" using r sub by simp
      have d: "drop (length sub) (c # cs) = rest" unfolding r by simp
      have "py_count (drop (length sub) (c # cs)) sub \<le> occurrences rest sub"
        using "2.IH"(2) [OF ne True] d by simp
      moreover have "occurrences rest sub \<le> occurrences (u @ rest) sub"
        by (induction u) (simp_all add: occurrences_Cons)
      ultimately show ?thesis
        using ne True by (simp add: occurrences_Cons cs)
    next
      case False
      then show ?thesis using ne "2.IH"(3) [OF ne False] by (simp add: occurrences_Cons)
    qed
  qed
qed

lemma py_count_eq_occurrences:
  assumes "border_free sub"
  shows "py_count s sub = occurrences s sub"
  using assms
proof (induction s sub rule: py_count.induct)
  case (1 sub)
  then show ?case by (simp add: occurrences_Nil)
next
  case (2 c cs sub)
  note bf = \<open>border_free sub\<close>
  show ?case
  proof (cases "sub = []")
    case True
    then show ?thesis by (simp add: occurrences_empty py_count_empty)
  next
    case ne: False
    show ?thesis
    proof (cases "prefix sub (c # cs)")
      case True
      then obtain rest where r: "c # cs = sub @ rest" by (auto simp: prefix_def)
      have d: "drop (length sub) (c # cs) = rest" unfolding r by simp
      have "py_count (c # cs) sub = Suc (py_count (drop (length sub) (c # cs)) sub)"
        using ne True by simp
      also have "py_count (drop (length sub) (c # cs)) sub = occurrences rest sub"
        using "2.IH"(2) [OF ne True bf] d by simp
      also have "Suc (occurrences rest sub) = occurrences (c # cs) sub"
        unfolding r by (rule occurrences_after_match [OF bf, symmetric])
      finally show ?thesis .
    next
      case False
      then show ?thesis using ne "2.IH"(3) [OF ne False bf] by (simp add: occurrences_Cons)
    qed
  qed
qed

lemma upt_1_5: "[1..<5] = [1, 2, 3, 4 :: nat]"
  by code_simp

lemma border_free_apple: "border_free (str ''apple'')"
  by (simp add: border_free_def str_def upt_1_5)

section \<open>The pooled text\<close>

lemma kw_markets_zebra:
  "extract_keywords demo_env (str '' Markets rally strongly today Zebra zebra zebra sighting'') 10
    = [str ''zebra'', str ''markets'', str ''rally'', str ''strongly'', str ''today'', str ''sighting'']"
  by (simp add: extract_keywords_def demo_env_def keywords_fallback_def most_common_def counter_def
      py_lower_def ascii_lower_def py_isalnum_def ascii_isalnum_def py_split_def isspace_def
      stop_words_def str_def)

lemma counts_markets_zebra:
  "map (\<lambda>t. int (py_count
          (py_lower demo_env (str '' Markets rally strongly today Zebra zebra zebra sighting''))
          (py_lower demo_env t)))
     [str ''zebra'', str ''markets'', str ''rally'', str ''strongly'', str ''today'', str ''sighting'']
   = [3, 1, 1, 1, 1, 1]"
  by (simp add: py_lower_def ascii_lower_def str_def)

lemma markets_fields:
  "py_get article_markets (str ''title'') = Inr (PStr (str ''Markets rally strongly today''))
   \<and> str ''Markets rally strongly today'' \<noteq> []
   \<and> py_get article_markets (str ''url'') = Inr (PStr (str ''http://d'')) \<and> str ''http://d'' \<noteq> []
   \<and> py_get_default article_markets (str ''description'') (PStr []) = Inr (PStr [])
   \<and> 10 \<le> length (py_strip (py_strip (str ''Markets rally strongly today'') @ [32] @ py_strip []))
   \<and> py_get_default article_markets (str ''source'') (PDict []) = Inr (PDict [])
   \<and> py_get_default (PDict []) (str ''name'') (PStr (str ''Unknown Source''))
        = Inr (PStr (str ''Unknown Source''))
   \<and> py_get_default article_markets (str ''publishedAt'') (PStr (now_isoformat demo_env))
        = Inr (PStr (now_isoformat demo_env))
   \<and> (py_get article_markets (str ''urlToImage'') = Inr PNone
        \<or> py_get article_markets (str ''urlToImage'') = Inr (PStr []))"
  by (simp add: article_markets_def str_def py_strip_def isspace_def)

lemma markets_text:
  "py_strip (str ''Markets rally strongly today'') = str ''Markets rally strongly today''"
  "py_strip [] = []"
  "py_strip (str ''Markets rally strongly today'' @ [32] @ [])
     = str ''Markets rally strongly today''"
  by (simp_all add: str_def py_strip_def isspace_def)

lemma markets_included:
  "\<exists>item. process_article demo_env cat st article_markets =
             (fst st @ [32] @ str ''Markets rally strongly today'', snd st @ [item])
        \<and> title item = str ''Markets rally strongly today''"
  using process_article_included [of article_markets "str ''Markets rally strongly today''"
        "str ''http://d''" "[]" "PDict []" "str ''Unknown Source''" demo_env
        "now_isoformat demo_env" "[]" cat st] markets_fields
  unfolding markets_text by auto

lemma zebra_fields:
  "py_get article_zebra (str ''title'') = Inr (PStr (str ''Zebra zebra zebra sighting''))
   \<and> str ''Zebra zebra zebra sighting'' \<noteq> []
   \<and> py_get article_zebra (str ''url'') = Inr (PStr (str ''http://e'')) \<and> str ''http://e'' \<noteq> []
   \<and> py_get_default article_zebra (str ''description'') (PStr []) = Inr (PStr [])
   \<and> 10 \<le> length (py_strip (py_strip (str ''Zebra zebra zebra sighting'') @ [32] @ py_strip []))
   \<and> py_get_default article_zebra (str ''source'') (PDict []) = Inr PNone
   \<and> py_get_default PNone (str ''name'') (PStr (str ''Unknown Source'')) = Inl AttributeError"
  by (simp add: article_zebra_def str_def py_strip_def isspace_def)

lemma zebra_text:
  "py_strip (py_strip (str ''Zebra zebra zebra sighting'') @ [32] @ py_strip [])
     = str ''Zebra zebra zebra sighting''"
  by (simp add: str_def py_strip_def isspace_def)

lemma zebra_dropped:
  "process_article E cat st article_zebra =
     (fst st @ [32] @ str ''Zebra zebra zebra sighting'', snd st)"
  using process_article_source_raises [of article_zebra "str ''Zebra zebra zebra sighting''"
        "str ''http://e''" "[]" PNone AttributeError E cat st] zebra_fields
  unfolding zebra_text by auto

text \<open>
  Claim C3 fails on the code. The loop appends an article's combined text to the pooled
  text before the scorers run and the \<open>NewsItem\<close> is built; when building the item
  raises, the handler skips the article and the text stays. Of the two articles below
  the second has \<^verbatim>\<open>"source": null\<close>, so \<^verbatim>\<open>article.get("source", {}).get(...)\<close> raises:
  the response holds the first article only, and its trending topics are led by
  \<open>zebra\<close>, counted three times, a word of the article that is absent.
\<close>

theorem dropped_article_text_is_pooled:
  "titles_of (fetch_news demo_env (str ''general'')
       (Inr (document 2 [article_markets, article_zebra])))
     = [str ''Markets rally strongly today'']
   \<and> topics_of (fetch_news demo_env (str ''general'')
       (Inr (document 2 [article_markets, article_zebra])))
     = [(str ''zebra'', 3), (str ''markets'', 1), (str ''rally'', 1), (str ''strongly'', 1),
        (str ''today'', 1), (str ''sighting'', 1)]"
proof -
  let ?cat = "str ''general''"
  obtain item where
    p: "process_article demo_env ?cat ([], []) article_markets
          = ([] @ [32] @ str ''Markets rally strongly today'', [] @ [item])"
    and t: "title item = str ''Markets rally strongly today''"
    using markets_included [of ?cat "([], [])"] by auto
  have ps: "process_articles demo_env ?cat [article_markets, article_zebra]
          = (str '' Markets rally strongly today Zebra zebra zebra sighting'', [item])"
    using p by (simp add: process_articles_def zebra_dropped str_def)
  have ne: "snd (process_articles demo_env ?cat [article_markets, article_zebra]) \<noteq> []"
    using ps by simp
  show ?thesis
    unfolding fetch_news_document [OF ne demo_validate_int] ps
    using counts_markets_zebra
    by (simp add: titles_of_def topics_of_def t trending_with_count_def kw_markets_zebra)
qed

section \<open>Quotes\<close>

lemma collect_quotes_eq:
  "collect_quotes m ss acc =
     acc @ map py_strip (take (nat (m - int (length acc))) (filter (\<lambda>s. 34 \<in> set s) ss))"
proof (induction ss arbitrary: acc)
  case Nil
  then show ?case by simp
next
  case (Cons s ss)
  show ?case
  proof (cases "34 \<in> set s \<and> int (length acc) < m")
    case True
    then have "nat (m - int (length acc)) = Suc (nat (m - int (length (acc @ [py_strip s]))))"
      by (simp add: Suc_nat_eq_nat_zadd1 algebra_simps)
    then show ?thesis using True Cons.IH [of "acc @ [py_strip s]"] by simp
  next
    case False
    then show ?thesis using Cons.IH [of acc] by auto
  qed
qed

lemma extract_key_quotes_eq:
  "sent_tokenize E t = Inr sentences \<Longrightarrow>
   extract_key_quotes E t m =
     Inr (map py_strip (take (nat m) (filter (\<lambda>s. 34 \<in> set s) sentences)))"
  by (simp add: extract_key_quotes_def bind_exn_Inr try_except_Inr collect_quotes_eq)

lemma extract_key_quotes_raise:
  "sent_tokenize E t = Inl e \<Longrightarrow> extract_key_quotes E t m = Inr []"
  by (simp add: extract_key_quotes_def bind_exn_Inl try_except_Inl)

text \<open>
  Claim C8 fails on the code for the curly quotation marks. The three tests of line
  238 are all for U+0022, so a sentence quoted with U+201C and U+201D is not returned,
  while the same sentence quoted with U+0022 is.
\<close>

theorem curly_quotes_not_found:
  "extract_key_quotes demo_env ([8220] @ str ''Stay calm,'' @ [8221] @ str '' she said.'') 2
     = Inr []
   \<and> extract_key_quotes demo_env ([34] @ str ''Stay calm,'' @ [34] @ str '' she said.'') 2
     = Inr [[34] @ str ''Stay calm,'' @ [34] @ str '' she said.'']"
proof -
  have a: "sent_tokenize demo_env ([8220] @ str ''Stay calm,'' @ [8221] @ str '' she said.'')
     = Inr [[8220] @ str ''Stay calm,'' @ [8221] @ str '' she said.'']"
    by (simp add: demo_env_def str_def isspace_def)
  have b: "sent_tokenize demo_env ([34] @ str ''Stay calm,'' @ [34] @ str '' she said.'')
     = Inr [[34] @ str ''Stay calm,'' @ [34] @ str '' she said.'']"
    by (simp add: demo_env_def str_def isspace_def)
  show ?thesis
    unfolding extract_key_quotes_eq [OF a] extract_key_quotes_eq [OF b]
    by (simp add: str_def py_strip_def isspace_def)
qed

section \<open>Summaries\<close>

text \<open>
  The summary is the text itself when the tokenizer raises or finds at most
  \<open>max_sentences\<close> sentences.
\<close>

lemma generate_ai_summary_identity:
  "(\<exists>e. sent_tokenize E t = Inl e) \<or>
   (\<exists>sentences. sent_tokenize E t = Inr sentences \<and> int (length sentences) \<le> m) \<Longrightarrow>
   generate_ai_summary E t m = Inr t"
  by (auto simp add: generate_ai_summary_def bind_exn_def try_except_def)

lemma generate_ai_summary_select:
  "sent_tokenize E t = Inr sentences \<Longrightarrow> \<not> int (length sentences) \<le> m \<Longrightarrow>
   generate_ai_summary E t m = Inr (py_join [32] (map snd (select_sentences m sentences)))"
  by (simp add: generate_ai_summary_def bind_exn_Inr try_except_Inr)

text \<open>
  When the sentences are pairwise different, the selected sentences come out in the
  order of the text.
\<close>

lemma py_index_Cons: "py_index (a # xs) x = (if x = a then 0 else Suc (py_index xs x))"
  by (simp add: py_index_def)

lemma map_py_index_distinct: "distinct xs \<Longrightarrow> map (py_index xs) xs = [0..<length xs]"
proof (induction xs)
  case Nil
  then show ?case by simp
next
  case (Cons a xs)
  have "map (py_index (a # xs)) xs = map (\<lambda>x. Suc (py_index xs x)) xs"
    using Cons.prems by (auto simp add: py_index_Cons)
  also have "\<dots> = map Suc (map (py_index xs) xs)" by simp
  also have "\<dots> = map Suc [0..<length xs]" using Cons by simp
  also have "\<dots> = [Suc 0..<Suc (length xs)]" by (simp only: map_Suc_upt)
  finally have t: "map (py_index (a # xs)) xs = [Suc 0..<Suc (length xs)]" .
  have "map (py_index (a # xs)) (a # xs) = 0 # [Suc 0..<Suc (length xs)]"
    unfolding list.map t by (simp add: py_index_Cons)
  also have "\<dots> = [0..<Suc (length xs)]" by (simp only: upt_conv_Cons zero_less_Suc)
  finally show ?case by simp
qed

lemma py_index_inj_on: "distinct xs \<Longrightarrow> inj_on (py_index xs) (set xs)"
proof -
  assume d: "distinct xs"
  have "distinct (map (py_index xs) xs)" using map_py_index_distinct [OF d] by simp
  then show ?thesis by (simp add: distinct_map)
qed

lemma sorted_by_index_is_filter:
  assumes "distinct xs" and "distinct ys" and "set ys \<subseteq> set xs"
    and "sorted (map (py_index xs) ys)"
  shows "ys = filter (\<lambda>x. x \<in> set ys) xs"
proof -
  let ?f = "py_index xs"
  let ?zs = "filter (\<lambda>x. x \<in> set ys) xs"
  have inj: "inj_on ?f (set xs)" by (rule py_index_inj_on [OF assms(1)])
  have sz: "set ?zs = set ys" using assms(3) by auto
  have "sorted (map ?f xs)" using map_py_index_distinct [OF assms(1)] by simp
  then have s2: "sorted (map ?f ?zs)" by (rule sorted_filter)
  have d1: "distinct (map ?f ys)"
    using assms(2) assms(3) inj by (auto simp add: distinct_map intro: inj_on_subset)
  have d2: "distinct (map ?f ?zs)"
    using assms(1) inj by (auto simp add: distinct_map intro: inj_on_subset)
  have "set (map ?f ys) = set (map ?f ?zs)" using sz by simp
  then have "map ?f ys = map ?f ?zs"
    using assms(4) s2 d1 d2 by (metis sorted_distinct_set_unique)
  moreover have "inj_on ?f (set ys \<union> set ?zs)"
    using inj assms(3) sz by (auto intro: inj_on_subset)
  ultimately show ?thesis by (simp add: inj_on_map_eq_map)
qed

lemma distinct_map_sort_key: "distinct (map g (sort_key k xs)) = distinct (map g xs)"
  by (simp add: distinct_map)

lemma map_snd_scored_sentences: "map snd (scored_sentences sentences) = sentences"
proof -
  have "map snd (scored_sentences sentences) = map snd (enumerate 0 sentences)"
    by (simp add: scored_sentences_def case_prod_beta comp_def)
  then show ?thesis by (simp only: map_snd_enumerate)
qed

lemma py_take_is_take: "\<exists>n. py_take k xs = take n xs"
  by (auto simp add: py_take_def)

lemma select_sentences_in_order:
  assumes "distinct sentences"
  shows "map snd (select_sentences m sentences) =
           filter (\<lambda>s. s \<in> snd ` set (select_sentences m sentences)) sentences"
proof -
  let ?T = "sort_key (\<lambda>x. - fst x) (scored_sentences sentences)"
  obtain n where n: "py_take m ?T = take n ?T" using py_take_is_take by blast
  let ?S = "take n ?T"
  let ?ys = "map snd (select_sentences m sentences)"
  have sel: "select_sentences m sentences = sort_key (\<lambda>x. py_index sentences (snd x)) ?S"
    by (simp add: select_sentences_def n)
  have dT: "distinct (map snd ?T)"
    using assms by (simp add: distinct_map_sort_key map_snd_scored_sentences)
  have "distinct (take n (map snd ?T))" using dT by (rule distinct_take)
  then have dS: "distinct (map snd ?S)" by (simp add: take_map)
  have d: "distinct ?ys" unfolding sel using dS by (simp add: distinct_map_sort_key)
  have "set (map snd ?S) \<subseteq> set (map snd ?T)"
    by (metis set_take_subset take_map)
  also have "set (map snd ?T) = set sentences"
    using map_snd_scored_sentences [of sentences] by (metis set_map set_sort)
  finally have sub: "set ?ys \<subseteq> set sentences" unfolding sel by simp
  have "sorted (map (\<lambda>x. py_index sentences (snd x))
                    (sort_key (\<lambda>x. py_index sentences (snd x)) ?S))"
    by (rule sorted_sort_key)
  then have so: "sorted (map (py_index sentences) ?ys)" unfolding sel by (simp add: comp_def)
  have "?ys = filter (\<lambda>x. x \<in> set ?ys) sentences"
    by (rule sorted_by_index_is_filter [OF assms d sub so])
  then show ?thesis by simp
qed

lemma select_sentences_subseq:
  "distinct sentences \<Longrightarrow> subseq (map snd (select_sentences m sentences)) sentences"
  using select_sentences_in_order [of sentences m] by (metis subseq_filter_left)

text \<open>
  Claim C5 fails on the code for a text that repeats a sentence. The selected
  sentences are re-sorted by \<^verbatim>\<open>sentences.index\<close>, the position of the first sentence with
  the same text: of \<open>Yes. No. Yes. Maybe so.\<close> the first three sentences are selected, and
  the summary puts the second \<open>Yes.\<close> before \<open>No.\<close>.
\<close>

theorem summary_reorders_repeated_sentences:
  "sent_tokenize demo_env (str ''Yes. No. Yes. Maybe so.'')
     = Inr [str ''Yes.'', str ''No.'', str ''Yes.'', str ''Maybe so.'']
   \<and> map snd (py_take 3 (sort_key (\<lambda>x. - fst x)
        (scored_sentences [str ''Yes.'', str ''No.'', str ''Yes.'', str ''Maybe so.''])))
     = [str ''Yes.'', str ''No.'', str ''Yes.'']
   \<and> generate_ai_summary demo_env (str ''Yes. No. Yes. Maybe so.'') 3
     = Inr (str ''Yes. Yes. No.'')"
proof -
  have a: "sent_tokenize demo_env (str ''Yes. No. Yes. Maybe so.'')
     = Inr [str ''Yes.'', str ''No.'', str ''Yes.'', str ''Maybe so.'']"
    by (simp add: demo_env_def str_def isspace_def)
  have b: "\<not> int (length [str ''Yes.'', str ''No.'', str ''Yes.'', str ''Maybe so.'']) \<le> 3"
    by simp
  have sc: "scored_sentences [str ''Yes.'', str ''No.'', str ''Yes.'', str ''Maybe so.'']
     = [(1, str ''Yes.''), (1 / 2, str ''No.''),
        (6004799503160661 / 18014398509481984, str ''Yes.''), (1 / 4, str ''Maybe so.'')]"
    by (simp add: scored_sentences_def sentence_score_def enumerate_eq_zip py_split_def
        str_def isspace_def upt_rec fl_exact fl_third)
  have c: "map snd (py_take 3 (sort_key (\<lambda>x. - fst x)
        (scored_sentences [str ''Yes.'', str ''No.'', str ''Yes.'', str ''Maybe so.''])))
     = [str ''Yes.'', str ''No.'', str ''Yes.'']"
    unfolding sc by (simp add: py_take_def)
  have d: "py_join [32] (map snd (select_sentences 3
        [str ''Yes.'', str ''No.'', str ''Yes.'', str ''Maybe so.'']))
     = str ''Yes. Yes. No.''"
    unfolding select_sentences_def sc by (simp add: py_take_def py_index_def str_def)
  show ?thesis
    unfolding generate_ai_summary_select [OF a b] d
    using a c by simp
qed


end
